theory Spec2Isabelle
  imports Main "HOL-Library.Word" "HOL-Library.AList"
begin

section \<open>Go standard library functions the updater calls\<close>

text \<open>
  The updater is a single Go package: \<^verbatim>\<open>cmd/updater/main.go\<close>, which talks to the provider
  through its SDK, and a second variant of the same file, which talks to it over plain HTTP
  with \<^verbatim>\<open>net/http\<close> and \<^verbatim>\<open>encoding/json\<close>. Its functions call into the Go
  standard library; the functions of this section follow the library's behaviour (Go 1.21,
  the version \<^verbatim>\<open>go.mod\<close> names). Go strings are byte sequences: \<^typ>\<open>string\<close>.
\<close>

type_synonym byte = "8 word"

definition ord :: "char \<Rightarrow> nat" where
  "ord c = of_char c"

definition isDigit :: "char \<Rightarrow> bool" where
  "isDigit c \<longleftrightarrow> 48 \<le> ord c \<and> ord c \<le> 57"

definition digitVal :: "char \<Rightarrow> nat" where
  "digitVal c = ord c - 48"

subsection \<open>strings.TrimSpace\<close>

text \<open>
  \<^verbatim>\<open>strings.TrimSpace\<close> removes leading and trailing code points for which
  \<^verbatim>\<open>unicode.IsSpace\<close> holds. These are the UTF-8 encodings of those code points:
  U+0009..U+000D, U+0020, U+0085, U+00A0, U+1680, U+2000..U+200A, U+2028, U+2029, U+202F,
  U+205F, U+3000. A byte sequence that is not one of these encodings decodes to another
  rune (or to the error rune) and stops the trimming.
\<close>

definition whiteSpace :: "string list" where
  "whiteSpace =
    [[CHR 0x09], [CHR 0x0A], [CHR 0x0B], [CHR 0x0C], [CHR 0x0D], [CHR 0x20],
     [CHR 0xC2, CHR 0x85], [CHR 0xC2, CHR 0xA0],
     [CHR 0xE1, CHR 0x9A, CHR 0x80],
     [CHR 0xE2, CHR 0x80, CHR 0x80], [CHR 0xE2, CHR 0x80, CHR 0x81],
     [CHR 0xE2, CHR 0x80, CHR 0x82], [CHR 0xE2, CHR 0x80, CHR 0x83],
     [CHR 0xE2, CHR 0x80, CHR 0x84], [CHR 0xE2, CHR 0x80, CHR 0x85],
     [CHR 0xE2, CHR 0x80, CHR 0x86], [CHR 0xE2, CHR 0x80, CHR 0x87],
     [CHR 0xE2, CHR 0x80, CHR 0x88], [CHR 0xE2, CHR 0x80, CHR 0x89],
     [CHR 0xE2, CHR 0x80, CHR 0x8A],
     [CHR 0xE2, CHR 0x80, CHR 0xA8], [CHR 0xE2, CHR 0x80, CHR 0xA9],
     [CHR 0xE2, CHR 0x80, CHR 0xAF],
     [CHR 0xE2, CHR 0x81, CHR 0x9F],
     [CHR 0xE3, CHR 0x80, CHR 0x80]]"

definition leadingRune :: "string list \<Rightarrow> string \<Rightarrow> string option" where
  "leadingRune runes s = find (\<lambda>p. p \<noteq> [] \<and> take (length p) s = p) runes"

lemma leadingRune_shorter:
  assumes "leadingRune runes s = Some p"
  shows "length s - length p < length s"
proof -
  from assms have p: "p \<noteq> []" "take (length p) s = p"
    by (auto simp: leadingRune_def find_Some_iff)
  from p(2) have "length (take (length p) s) = length p" by simp
  then have "length p \<le> length s" by simp
  with p(1) show ?thesis by (cases p) auto
qed

function trimLeftRunes :: "string list \<Rightarrow> string \<Rightarrow> string" where
  "trimLeftRunes runes s =
     (case leadingRune runes s of
        None \<Rightarrow> s
      | Some p \<Rightarrow> trimLeftRunes runes (drop (length p) s))"
  by pat_completeness auto
termination
  by (relation "measure (\<lambda>(runes, s). length s)") (auto simp: leadingRune_shorter)

declare trimLeftRunes.simps [simp del]

definition TrimSpace :: "string \<Rightarrow> string" where
  "TrimSpace s = rev (trimLeftRunes (map rev whiteSpace) (rev (trimLeftRunes whiteSpace s)))"

subsection \<open>net.ParseIP, IP.To4, IP.String\<close>

text \<open>
  \<^verbatim>\<open>net.ParseIP\<close> is \<^verbatim>\<open>netip.ParseAddr\<close> followed by the rejection of zoned addresses and
  the conversion to the 16-byte form. \<open>parseIPv4\<close> walks the string once; the state of its
  loop is the previous byte (for the test \<^verbatim>\<open>s[i-1] == '.'\<close>), the value and digit count of
  the current octet and the octets stored so far (\<^verbatim>\<open>pos\<close> is their number).
\<close>

fun parseIPv4_loop :: "string \<Rightarrow> char option \<Rightarrow> nat \<Rightarrow> nat \<Rightarrow> byte list \<Rightarrow> byte list option" where
  "parseIPv4_loop [] prev val digLen fields =
     (if length fields < 3 then None else Some (fields @ [of_nat val]))"
| "parseIPv4_loop (c # cs) prev val digLen fields =
     (if isDigit c then
        (if digLen = 1 \<and> val = 0 then None
         else if val * 10 + digitVal c > 255 then None
         else parseIPv4_loop cs (Some c) (val * 10 + digitVal c) (digLen + 1) fields)
      else if c = CHR ''.'' then
        (if prev = None \<or> cs = [] \<or> prev = Some (CHR ''.'') then None
         else if length fields = 3 then None
         else parseIPv4_loop cs (Some c) 0 0 (fields @ [of_nat val]))
      else None)"

definition parseIPv4 :: "string \<Rightarrow> byte list option" where
  "parseIPv4 s = parseIPv4_loop s None 0 0 []"

definition hexVal :: "char \<Rightarrow> nat option" where
  "hexVal c =
     (if 48 \<le> ord c \<and> ord c \<le> 57 then Some (ord c - 48)
      else if 97 \<le> ord c \<and> ord c \<le> 102 then Some (ord c - 97 + 10)
      else if 65 \<le> ord c \<and> ord c \<le> 70 then Some (ord c - 65 + 10)
      else None)"

text \<open>The inner loop of \<open>parseIPv6\<close>: the value of the leading hex digits and their number
  \<^verbatim>\<open>off\<close>; \<open>None\<close> when the value passes \<open>2^16 - 1\<close>.\<close>

fun hexField :: "string \<Rightarrow> nat \<Rightarrow> nat \<Rightarrow> (nat \<times> nat) option" where
  "hexField [] acc off = Some (acc, off)"
| "hexField (c # cs) acc off =
     (case hexVal c of
        None \<Rightarrow> Some (acc, off)
      | Some d \<Rightarrow>
          (if acc * 16 + d > 65535 then None else hexField cs (acc * 16 + d) (off + 1)))"

text \<open>The outer loop of \<open>parseIPv6\<close>. \<open>ip\<close> holds the bytes stored so far (\<^verbatim>\<open>i\<close> is their
  number), \<open>ellipsis\<close> the position of \<^verbatim>\<open>::\<close> if one was seen. The result is the unread
  rest of the string with the final \<open>ip\<close> and \<open>ellipsis\<close>.\<close>

function parseIPv6_loop ::
  "string \<Rightarrow> byte list \<Rightarrow> nat option \<Rightarrow> (string \<times> byte list \<times> nat option) option" where
  "parseIPv6_loop s ip ellipsis =
     (if \<not> length ip < 16 then Some (s, ip, ellipsis)
      else case hexField s 0 0 of
        None \<Rightarrow> None
      | Some (acc, off) \<Rightarrow>
          if off = 0 then None
          else if off < length s \<and> s ! off = CHR ''.'' then
            (if ellipsis = None \<and> length ip \<noteq> 12 then None
             else if length ip + 4 > 16 then None
             else case parseIPv4 s of
                    None \<Rightarrow> None
                  | Some v4 \<Rightarrow> Some ([], ip @ v4, ellipsis))
          else if drop off s = [] then
            Some ([], ip @ [of_nat (acc div 256), of_nat acc], ellipsis)
          else if hd (drop off s) \<noteq> CHR '':'' then None
          else if length (drop off s) = 1 then None
          else if hd (tl (drop off s)) = CHR '':'' then
            (if ellipsis \<noteq> None then None
             else if tl (tl (drop off s)) = [] then
               Some ([], ip @ [of_nat (acc div 256), of_nat acc], Some (length ip + 2))
             else parseIPv6_loop (tl (tl (drop off s)))
                    (ip @ [of_nat (acc div 256), of_nat acc]) (Some (length ip + 2)))
          else parseIPv6_loop (tl (drop off s))
                 (ip @ [of_nat (acc div 256), of_nat acc]) ellipsis)"
  by pat_completeness auto

termination parseIPv6_loop
proof (relation "measure (\<lambda>(s, ip, e). length s)", goal_cases)
  case 1
  show ?case by simp
next
  case (2 s ip ellipsis x2 x y)
  then have "drop y s \<noteq> []" "tl (drop y s) \<noteq> []" by auto
  then show ?case
    by (cases "drop y s") (auto simp: neq_Nil_conv dest: arg_cong [where f = length])
next
  case (3 s ip ellipsis x2 x y)
  then have "drop y s \<noteq> []" by auto
  then show ?case
    by (cases "drop y s") (auto dest: arg_cong [where f = length])
qed

declare parseIPv6_loop.simps [simp del]

datatype addr = Addr4 "byte list" | Addr6 "byte list" string

definition parseIPv6 :: "string \<Rightarrow> addr option" where
  "parseIPv6 input =
     (let s = takeWhile (\<lambda>c. c \<noteq> CHR ''%'') input;
          zoned = (CHR ''%'' \<in> set input);
          zone = (if zoned then tl (dropWhile (\<lambda>c. c \<noteq> CHR ''%'') input) else [])
      in if zoned \<and> zone = [] then None
         else if s = '':'' @ '':'' then Some (Addr6 (replicate 16 0) zone)
         else
           (case (if take 2 s = '':'' @ '':'' then parseIPv6_loop (drop 2 s) [] (Some 0)
                  else parseIPv6_loop s [] None) of
              None \<Rightarrow> None
            | Some (rest, ip, ellipsis) \<Rightarrow>
                if rest \<noteq> [] then None
                else if length ip < 16 then
                  (case ellipsis of
                     None \<Rightarrow> None
                   | Some e \<Rightarrow>
                       Some (Addr6 (take e ip @ replicate (16 - length ip) 0 @ drop e ip) zone))
                else if ellipsis \<noteq> None then None
                else Some (Addr6 ip zone)))"

text \<open>\<^verbatim>\<open>netip.ParseAddr\<close> decides by the first of \<^verbatim>\<open>.\<close>, \<^verbatim>\<open>:\<close> and \<^verbatim>\<open>%\<close> in the string.\<close>

fun ParseAddr_scan :: "string \<Rightarrow> string \<Rightarrow> addr option" where
  "ParseAddr_scan s [] = None"
| "ParseAddr_scan s (c # cs) =
     (if c = CHR ''.'' then map_option Addr4 (parseIPv4 s)
      else if c = CHR '':'' then parseIPv6 s
      else if c = CHR ''%'' then None
      else ParseAddr_scan s cs)"

definition ParseAddr :: "string \<Rightarrow> addr option" where
  "ParseAddr s = ParseAddr_scan s s"

definition v4InV6Prefix :: "byte list" where
  "v4InV6Prefix = [0, 0, 0, 0, 0, 0, 0, 0, 0, 0, 0xff, 0xff]"

definition ParseIP :: "string \<Rightarrow> byte list option" where
  "ParseIP s =
     (case ParseAddr s of
        None \<Rightarrow> None
      | Some (Addr4 v4) \<Rightarrow> Some (v4InV6Prefix @ v4)
      | Some (Addr6 ip zone) \<Rightarrow> if zone \<noteq> [] then None else Some ip)"

definition To4 :: "byte list \<Rightarrow> byte list option" where
  "To4 ip =
     (if length ip = 4 then Some ip
      else if length ip = 16 \<and> take 12 ip = v4InV6Prefix then Some (drop 12 ip)
      else None)"

definition digitChar :: "nat \<Rightarrow> char" where
  "digitChar n = char_of (n + 48)"

definition ubtoa :: "byte \<Rightarrow> string" where
  "ubtoa v =
     (if unat v < 10 then [digitChar (unat v)]
      else if unat v < 100 then [digitChar (unat v div 10), digitChar (unat v mod 10)]
      else [digitChar (unat v div 100), digitChar (unat v div 10 mod 10),
            digitChar (unat v mod 10)])"

text \<open>\<^verbatim>\<open>IP.String\<close> on a 4-byte address, the only length \<open>discoverIP\<close> renders (see
  \<open>To4_length\<close>). The renderings of other lengths are not needed and stand as \<^verbatim>\<open>?\<close>.\<close>

fun IP_String :: "byte list \<Rightarrow> string" where
  "IP_String [a, b, c, d] = ubtoa a @ ''.'' @ ubtoa b @ ''.'' @ ubtoa c @ ''.'' @ ubtoa d"
| "IP_String ip = ''?''"

lemma To4_length: "To4 ip = Some v \<Longrightarrow> length v = 4"
  by (auto simp: To4_def split: if_splits)


subsection \<open>strconv.Atoi, strings.Split\<close>

text \<open>\<^verbatim>\<open>strconv.Atoi\<close>: an optional sign, then one or more decimal digits and nothing else;
  values outside the range of \<^verbatim>\<open>int\<close> (64 bits) are a range error.\<close>

definition Atoi :: "string \<Rightarrow> int option" where
  "Atoi s =
     (let neg = (s \<noteq> [] \<and> hd s = CHR ''-'');
          ds = (if s \<noteq> [] \<and> (hd s = CHR ''-'' \<or> hd s = CHR ''+'') then tl s else s)
      in if ds = [] \<or> \<not> list_all isDigit ds then None
         else let n = int (foldl (\<lambda>n c. n * 10 + digitVal c) 0 ds);
                  v = (if neg then - n else n)
              in if v < - (2 ^ 63) \<or> 2 ^ 63 - 1 < v then None else Some v)"

text \<open>\<^verbatim>\<open>strings.Split(s, sep)\<close> for a one-byte separator.\<close>

fun Split :: "string \<Rightarrow> char \<Rightarrow> string list" where
  "Split [] sep = [[]]"
| "Split (c # cs) sep =
     (if c = sep then [] # Split cs sep
      else (case Split cs sep of
              x # xs \<Rightarrow> (c # x) # xs
            | [] \<Rightarrow> [[c]]))"

section \<open>Data model\<close>

text \<open>The constants and types of \<^verbatim>\<open>main.go\<close>.\<close>

definition defaultTTL :: int where "defaultTTL = 300"
definition defaultRecordType :: string where "defaultRecordType = ''A''"
definition envAuthEmail :: string where "envAuthEmail = ''CF_AUTH_EMAIL''"
definition envAuthMethod :: string where "envAuthMethod = ''CF_AUTH_METHOD''"
definition envAuthKey :: string where "envAuthKey = ''CF_AUTH_KEY''"
definition envZoneID :: string where "envZoneID = ''CF_ZONE_ID''"
definition envRecordName :: string where "envRecordName = ''CF_RECORD_NAME''"
definition envRecordType :: string where "envRecordType = ''CF_RECORD_TYPE''"
definition envTTL :: string where "envTTL = ''CF_TTL''"
definition envProxied :: string where "envProxied = ''CF_PROXIED''"
definition envIPServices :: string where "envIPServices = ''CF_IP_SERVICES''"

definition defaultIPServices :: "string list" where
  "defaultIPServices =
     [''https://api.ipify.org'', ''https://ipv4.icanhazip.com'', ''https://ipinfo.io/ip'']"

record Config =
  AuthEmail :: string
  AuthMethod :: string
  AuthKey :: string
  ZoneID :: string
  RecordName :: string
  RecordType :: string
  TTL :: int
  Proxied :: bool
  IPServices :: "string list"

record DNSRecord =
  ID :: string
  Type :: string
  Name :: string
  Content :: string
  RecordTTL :: int
  RecordProxied :: bool

record apiError =
  Code :: int
  Message :: string

record listResponse =
  Success :: bool
  Errors :: "apiError list"
  Result :: "DNSRecord list"

record updateResponse =
  UpdateSuccess :: bool
  UpdateErrors :: "apiError list"

text \<open>The errors the functions return, one constructor per \<^verbatim>\<open>errors.New\<close> or
  \<^verbatim>\<open>fmt.Errorf\<close> of the source with the values it formats, and one for each kind of error
  handed on from a library call.\<close>

datatype error =
    InvalidValue string string
  | Required string
  | RequiredWhenGlobal string string
  | UnsupportedAuthMethod string
  | UnsupportedRecordType string
  | DiscoverExhausted
  | NewRequestFailed
  | TransportFailed
  | UnexpectedStatus nat
  | DecodeFailed
  | CloudflareError "apiError list"
  | NoMatchingRecord string
  | CloudflareUpdateFailed "apiError list"
  | UnsupportedClientAuthMethod string
  | SDKError string
  | RecordTypeNotSupported string

subsection \<open>HTTP requests and responses\<close>

datatype json = JString string | JInt int | JBool bool

text \<open>A request as the program builds it. The body is the map handed to \<^verbatim>\<open>json.Marshal\<close>
  (which cannot fail on strings, integers and booleans), \<open>None\<close> for a request without
  body. A response is its status code and the bytes of its body, \<open>None\<close> when reading the
  body fails.\<close>

record request =
  Method :: string
  URL :: string
  Header :: "(string \<times> string) list"
  Body :: "(string \<times> json) list option"

record response =
  StatusCode :: nat
  RespBody :: "string option"

definition Header_Set :: "request \<Rightarrow> string \<Rightarrow> string \<Rightarrow> request" where
  "Header_Set req k v = req\<lparr>Header := AList.update k v (Header req)\<rparr>"

definition Header_Get :: "request \<Rightarrow> string \<Rightarrow> string option" where
  "Header_Get req k = map_of (Header req) k"

subsection \<open>The provider SDK (cloudflare-go) as \<^verbatim>\<open>cmd/updater/main.go\<close> uses it\<close>

datatype RequestOption =
    WithHTTPClient
  | WithAPIToken string
  | WithAPIKey string
  | WithAPIEmail string

record RecordListParams =
  ListZoneID :: string
  ListName :: string
  ListType :: string

text \<open>\<^verbatim>\<open>dns.TTL(float64(cfg.TTL))\<close>: the conversion is kept as a constructor.\<close>

datatype float64 = Float64 int

record ARecordParam =
  ParamName :: string
  ParamContent :: string
  ParamType :: string
  ParamTTL :: float64
  ParamProxied :: bool

record RecordUpdateParams =
  UpdateZoneID :: string
  UpdateRecord :: ARecordParam

text \<open>\<^verbatim>\<open>dns.Record\<close> with the result of its \<^verbatim>\<open>AsUnion\<close>: an A record with its content, or
  a record of another kind.\<close>

datatype RecordUnion = ARecord string | OtherRecord

record dns_Record =
  SdkID :: string
  SdkName :: string
  SdkType :: string
  AsUnion :: RecordUnion

datatype sdk_call =
    RecordsListCall "RequestOption list" RecordListParams
  | RecordsUpdateCall "RequestOption list" string RecordUpdateParams

subsection \<open>The world outside the program\<close>

text \<open>
  What the program reads from its environment and the library functions that are not
  defined above: the process environment (\<^verbatim>\<open>os.Getenv\<close>, the empty string for an unset
  variable), \<^verbatim>\<open>strings.Map(unicode.ToLower, s)\<close> and \<^verbatim>\<open>strings.Map(unicode.ToUpper, s)\<close>
  (they follow the Unicode case tables), whether \<^verbatim>\<open>http.NewRequest\<close> accepts a method and URL, the reply of
  \<^verbatim>\<open>client.Do\<close> to a request given the requests sent before it (\<open>None\<close> for an error),
  the result of decoding a body with \<^verbatim>\<open>encoding/json\<close> into each of the two response
  types (\<open>None\<close> for an error), and the two SDK calls.
\<close>

record world =
  Getenv :: "string \<Rightarrow> string"
  MapToLower :: "string \<Rightarrow> string"
  MapToUpper :: "string \<Rightarrow> string"
  NewRequest :: "string \<Rightarrow> string \<Rightarrow> bool"
  Do :: "request list \<Rightarrow> request \<Rightarrow> response option"
  DecodeList :: "string \<Rightarrow> listResponse option"
  DecodeUpdate :: "string \<Rightarrow> updateResponse option"
  RecordsList :: "RequestOption list \<Rightarrow> RecordListParams \<Rightarrow> error + dns_Record list"
  RecordsUpdate :: "RequestOption list \<Rightarrow> string \<Rightarrow> RecordUpdateParams \<Rightarrow> error option"


subsection \<open>strings.ToLower, strings.ToUpper\<close>

text \<open>Both functions map a string of ASCII bytes byte by byte and hand any other string to
  \<^verbatim>\<open>strings.Map\<close> with the Unicode case mapping.\<close>

definition isASCII :: "string \<Rightarrow> bool" where
  "isASCII s = list_all (\<lambda>c. ord c < 128) s"

definition lowerByte :: "char \<Rightarrow> char" where
  "lowerByte c = (if 65 \<le> ord c \<and> ord c \<le> 90 then char_of (ord c + 32) else c)"

definition upperByte :: "char \<Rightarrow> char" where
  "upperByte c = (if 97 \<le> ord c \<and> ord c \<le> 122 then char_of (ord c - 32) else c)"

definition ToLower :: "world \<Rightarrow> string \<Rightarrow> string" where
  "ToLower w s = (if isASCII s then map lowerByte s else MapToLower w s)"

definition ToUpper :: "world \<Rightarrow> string \<Rightarrow> string" where
  "ToUpper w s = (if isASCII s then map upperByte s else MapToUpper w s)"

section \<open>The updater\<close>

subsection \<open>loadConfig\<close>

text \<open>\<^verbatim>\<open>loadConfig\<close> is the same in both variants of \<^verbatim>\<open>main.go\<close>. Its warning to the log
  under the token method is not modelled; each \<^verbatim>\<open>return Config{}, fmt.Errorf(...)\<close> is an
  \<open>Inl\<close>, in the order of the source.\<close>

definition loadConfig :: "world \<Rightarrow> error + Config" where
  "loadConfig w =
     (let authEmail = TrimSpace (Getenv w envAuthEmail);
          authMethod0 = ToLower w (TrimSpace (Getenv w envAuthMethod));
          authKey = TrimSpace (Getenv w envAuthKey);
          zoneID = TrimSpace (Getenv w envZoneID);
          recordName = TrimSpace (Getenv w envRecordName);
          recordType0 = ToUpper w (TrimSpace (Getenv w envRecordType));
          authMethod = (if authMethod0 = [] then ''token'' else authMethod0);
          recordType = (if recordType0 = [] then defaultRecordType else recordType0);
          ttlValue = TrimSpace (Getenv w envTTL);
          proxiedValue = TrimSpace (Getenv w envProxied);
          servicesValue = TrimSpace (Getenv w envIPServices)
      in
      case (if ttlValue = [] then Inr defaultTTL
            else (case Atoi ttlValue of
                    None \<Rightarrow> Inl (InvalidValue envTTL ttlValue)
                  | Some ttl \<Rightarrow>
                      if ttl < 60 then Inl (InvalidValue envTTL ttlValue) else Inr ttl)) of
        Inl e \<Rightarrow> Inl e
      | Inr ttl \<Rightarrow>
         (case (if ToLower w proxiedValue = [] \<or> ToLower w proxiedValue = ''false''
                then Inr False
                else if ToLower w proxiedValue = ''true'' then Inr True
                else Inl (InvalidValue envProxied proxiedValue)) of
            Inl e \<Rightarrow> Inl e
          | Inr proxied \<Rightarrow>
             (let listed = filter (\<lambda>trimmed. trimmed \<noteq> [])
                             (map TrimSpace (Split servicesValue (CHR '','')));
                  services = (if servicesValue = [] then defaultIPServices
                              else if listed = [] then defaultIPServices
                              else listed);
                  cfg = \<lparr>AuthEmail = authEmail, AuthMethod = authMethod, AuthKey = authKey,
                         ZoneID = zoneID, RecordName = recordName, RecordType = recordType,
                         TTL = ttl, Proxied = proxied, IPServices = services\<rparr>;
                  rest = (if zoneID = [] then Inl (Required envZoneID)
                          else if recordName = [] then Inl (Required envRecordName)
                          else if recordType \<noteq> ''A'' then Inl (UnsupportedRecordType recordType)
                          else Inr cfg)
              in
              if authKey = [] then Inl (Required envAuthKey)
              else if authMethod = ''token'' then rest
              else if authMethod = ''global'' then
                (if authEmail = [] then Inl (RequiredWhenGlobal envAuthEmail envAuthMethod)
                 else rest)
              else Inl (UnsupportedAuthMethod authMethod))))"

subsection \<open>discoverIP\<close>

text \<open>\<^verbatim>\<open>discoverIP\<close> is the same in both variants. The second argument is the list of the
  requests handed to \<^verbatim>\<open>client.Do\<close> so far; the function returns it extended. Each
  \<^verbatim>\<open>continue\<close> of the loop is the recursive call on the remaining services.\<close>

definition getRequest :: "string \<Rightarrow> request" where
  "getRequest svc = \<lparr>Method = ''GET'', URL = svc, Header = [], Body = None\<rparr>"

fun discoverIP :: "world \<Rightarrow> request list \<Rightarrow> string list \<Rightarrow> (error + string) \<times> request list" where
  "discoverIP w tr [] = (Inl DiscoverExhausted, tr)"
| "discoverIP w tr (svc # services) =
     (if \<not> NewRequest w ''GET'' svc then discoverIP w tr services
      else
        (case Do w tr (getRequest svc) of
           None \<Rightarrow> discoverIP w (tr @ [getRequest svc]) services
         | Some resp \<Rightarrow>
            (case RespBody resp of
               None \<Rightarrow> discoverIP w (tr @ [getRequest svc]) services
             | Some body \<Rightarrow>
                (case ParseIP (TrimSpace body) of
                   None \<Rightarrow> discoverIP w (tr @ [getRequest svc]) services
                 | Some parsed \<Rightarrow>
                    (case To4 parsed of
                       None \<Rightarrow> discoverIP w (tr @ [getRequest svc]) services
                     | Some parsed4 \<Rightarrow> (Inr (IP_String parsed4), tr @ [getRequest svc]))))))"

subsection \<open>The variant over plain HTTP\<close>

definition applyAuthHeaders :: "request \<Rightarrow> Config \<Rightarrow> request" where
  "applyAuthHeaders req cfg =
     (let req1 = (if AuthEmail cfg \<noteq> [] then Header_Set req ''X-Auth-Email'' (AuthEmail cfg)
                  else req)
      in if AuthMethod cfg = ''global'' then Header_Set req1 ''X-Auth-Key'' (AuthKey cfg)
         else Header_Set req1 ''Authorization'' (''Bearer '' @ AuthKey cfg))"

definition fetchEndpoint :: "Config \<Rightarrow> string" where
  "fetchEndpoint cfg =
     ''https://api.cloudflare.com/client/v4/zones/'' @ ZoneID cfg @ ''/dns_records?type=''
       @ RecordType cfg @ ''&name='' @ RecordName cfg"

definition fetchRequest :: "Config \<Rightarrow> request" where
  "fetchRequest cfg =
     applyAuthHeaders \<lparr>Method = ''GET'', URL = fetchEndpoint cfg, Header = [], Body = None\<rparr> cfg"

text \<open>The JSON decoder reads the body of the response: a body that cannot be read is a
  decoding error.\<close>

definition fetchDNSRecord_http ::
  "world \<Rightarrow> request list \<Rightarrow> Config \<Rightarrow> (error + DNSRecord) \<times> request list" where
  "fetchDNSRecord_http w tr cfg =
     (if \<not> NewRequest w ''GET'' (fetchEndpoint cfg) then (Inl NewRequestFailed, tr)
      else
        (case Do w tr (fetchRequest cfg) of
           None \<Rightarrow> (Inl TransportFailed, tr @ [fetchRequest cfg])
         | Some resp \<Rightarrow>
            if StatusCode resp \<noteq> 200 then
              (Inl (UnexpectedStatus (StatusCode resp)), tr @ [fetchRequest cfg])
            else
              (case (case RespBody resp of None \<Rightarrow> None | Some body \<Rightarrow> DecodeList w body) of
                 None \<Rightarrow> (Inl DecodeFailed, tr @ [fetchRequest cfg])
               | Some payload \<Rightarrow>
                  if \<not> Success payload then
                    (Inl (CloudflareError (Errors payload)), tr @ [fetchRequest cfg])
                  else
                    (case Result payload of
                       [] \<Rightarrow> (Inl (NoMatchingRecord (RecordName cfg)), tr @ [fetchRequest cfg])
                     | record # _ \<Rightarrow> (Inr record, tr @ [fetchRequest cfg])))))"

definition updateEndpoint :: "Config \<Rightarrow> string \<Rightarrow> string" where
  "updateEndpoint cfg recordID =
     ''https://api.cloudflare.com/client/v4/zones/'' @ ZoneID cfg @ ''/dns_records/'' @ recordID"

definition updateBody :: "Config \<Rightarrow> string \<Rightarrow> (string \<times> json) list" where
  "updateBody cfg newIP =
     [(''type'', JString (RecordType cfg)),
      (''name'', JString (RecordName cfg)),
      (''content'', JString newIP),
      (''ttl'', JInt (TTL cfg)),
      (''proxied'', JBool (Proxied cfg))]"

definition updateRequest :: "Config \<Rightarrow> string \<Rightarrow> string \<Rightarrow> request" where
  "updateRequest cfg recordID newIP =
     applyAuthHeaders
       (Header_Set \<lparr>Method = ''PATCH'', URL = updateEndpoint cfg recordID, Header = [],
                    Body = Some (updateBody cfg newIP)\<rparr>
          ''Content-Type'' ''application/json'')
       cfg"

definition updateDNSRecord_http ::
  "world \<Rightarrow> request list \<Rightarrow> Config \<Rightarrow> string \<Rightarrow> string \<Rightarrow> error option \<times> request list" where
  "updateDNSRecord_http w tr cfg recordID newIP =
     (if \<not> NewRequest w ''PATCH'' (updateEndpoint cfg recordID) then (Some NewRequestFailed, tr)
      else
        (case Do w tr (updateRequest cfg recordID newIP) of
           None \<Rightarrow> (Some TransportFailed, tr @ [updateRequest cfg recordID newIP])
         | Some resp \<Rightarrow>
            if StatusCode resp \<noteq> 200 then
              (Some (UnexpectedStatus (StatusCode resp)), tr @ [updateRequest cfg recordID newIP])
            else
              (case (case RespBody resp of None \<Rightarrow> None | Some body \<Rightarrow> DecodeUpdate w body) of
                 None \<Rightarrow> (Some DecodeFailed, tr @ [updateRequest cfg recordID newIP])
               | Some result \<Rightarrow>
                  if \<not> UpdateSuccess result then
                    (Some (CloudflareUpdateFailed (UpdateErrors result)),
                     tr @ [updateRequest cfg recordID newIP])
                  else (None, tr @ [updateRequest cfg recordID newIP]))))"

text \<open>How a run of \<^verbatim>\<open>main\<close> ends: each \<^verbatim>\<open>log.Fatalf\<close> with the error it reports, the
  return after "already up to date" (\<open>NoOpDone\<close>) and the normal end (\<open>Done\<close>).\<close>

datatype outcome =
    ConfigurationError error
  | DiscoverFailed error
  | ClientFailed error
  | FetchFailed error
  | ContentFailed error
  | NoOpDone
  | UpdateFailed error
  | Done

definition main_http :: "world \<Rightarrow> outcome \<times> request list" where
  "main_http w =
     (case loadConfig w of
        Inl e \<Rightarrow> (ConfigurationError e, [])
      | Inr cfg \<Rightarrow>
         (case discoverIP w [] (IPServices cfg) of
            (Inl e, tr) \<Rightarrow> (DiscoverFailed e, tr)
          | (Inr ip, tr) \<Rightarrow>
             (case fetchDNSRecord_http w tr cfg of
                (Inl e, tr') \<Rightarrow> (FetchFailed e, tr')
              | (Inr record, tr') \<Rightarrow>
                 if Content record = ip then (NoOpDone, tr')
                 else
                   (case updateDNSRecord_http w tr' cfg (ID record) ip of
                      (Some e, tr'') \<Rightarrow> (UpdateFailed e, tr'')
                    | (None, tr'') \<Rightarrow> (Done, tr'')))))"

subsection \<open>The variant over the provider SDK\<close>

definition newCloudflareClient :: "Config \<Rightarrow> error + RequestOption list" where
  "newCloudflareClient cfg =
     (if AuthMethod cfg = ''token'' then Inr [WithHTTPClient, WithAPIToken (AuthKey cfg)]
      else if AuthMethod cfg = ''global'' then
        Inr [WithHTTPClient, WithAPIKey (AuthKey cfg), WithAPIEmail (AuthEmail cfg)]
      else Inl (UnsupportedClientAuthMethod (AuthMethod cfg)))"

definition listParams :: "Config \<Rightarrow> RecordListParams" where
  "listParams cfg =
     \<lparr>ListZoneID = ZoneID cfg, ListName = RecordName cfg, ListType = RecordType cfg\<rparr>"

definition fetchDNSRecord_sdk ::
  "world \<Rightarrow> sdk_call list \<Rightarrow> RequestOption list \<Rightarrow> Config \<Rightarrow> (error + dns_Record) \<times> sdk_call list" where
  "fetchDNSRecord_sdk w calls client cfg =
     (case RecordsList w client (listParams cfg) of
        Inl e \<Rightarrow> (Inl e, calls @ [RecordsListCall client (listParams cfg)])
      | Inr page \<Rightarrow>
         (case page of
            [] \<Rightarrow> (Inl (NoMatchingRecord (RecordName cfg)),
                   calls @ [RecordsListCall client (listParams cfg)])
          | record # _ \<Rightarrow> (Inr record, calls @ [RecordsListCall client (listParams cfg)])))"

definition extractARecordIP :: "dns_Record \<Rightarrow> error + string" where
  "extractARecordIP record =
     (case AsUnion record of
        ARecord content \<Rightarrow> Inr (TrimSpace content)
      | OtherRecord \<Rightarrow> Inl (RecordTypeNotSupported (SdkType record)))"

definition updateParams :: "Config \<Rightarrow> string \<Rightarrow> RecordUpdateParams" where
  "updateParams cfg newIP =
     \<lparr>UpdateZoneID = ZoneID cfg,
      UpdateRecord = \<lparr>ParamName = RecordName cfg, ParamContent = newIP, ParamType = ''A'',
                      ParamTTL = Float64 (TTL cfg), ParamProxied = Proxied cfg\<rparr>\<rparr>"

definition updateDNSRecord_sdk ::
  "world \<Rightarrow> sdk_call list \<Rightarrow> RequestOption list \<Rightarrow> Config \<Rightarrow> string \<Rightarrow> string
     \<Rightarrow> error option \<times> sdk_call list" where
  "updateDNSRecord_sdk w calls client cfg recordID newIP =
     (RecordsUpdate w client recordID (updateParams cfg newIP),
      calls @ [RecordsUpdateCall client recordID (updateParams cfg newIP)])"

definition main_sdk :: "world \<Rightarrow> outcome \<times> request list \<times> sdk_call list" where
  "main_sdk w =
     (case loadConfig w of
        Inl e \<Rightarrow> (ConfigurationError e, [], [])
      | Inr cfg \<Rightarrow>
         (case discoverIP w [] (IPServices cfg) of
            (Inl e, tr) \<Rightarrow> (DiscoverFailed e, tr, [])
          | (Inr ip, tr) \<Rightarrow>
             (case newCloudflareClient cfg of
                Inl e \<Rightarrow> (ClientFailed e, tr, [])
              | Inr cfClient \<Rightarrow>
                 (case fetchDNSRecord_sdk w [] cfClient cfg of
                    (Inl e, calls) \<Rightarrow> (FetchFailed e, tr, calls)
                  | (Inr record, calls) \<Rightarrow>
                     (case extractARecordIP record of
                        Inl e \<Rightarrow> (ContentFailed e, tr, calls)
                      | Inr currentIP \<Rightarrow>
                         if currentIP = ip then (NoOpDone, tr, calls)
                         else
                           (case updateDNSRecord_sdk w calls cfClient cfg (SdkID record) ip of
                              (Some e, calls') \<Rightarrow> (UpdateFailed e, tr, calls')
                            | (None, calls') \<Rightarrow> (Done, tr, calls')))))))"


section \<open>Properties of discoverIP\<close>

text \<open>What one iteration of the loop of \<open>discoverIP\<close> obtains from a service that is
  queried after the requests \<open>tr\<close>: the four bytes of the IPv4 address in its reply, or
  \<open>None\<close> when the iteration ends in \<^verbatim>\<open>continue\<close> (the request cannot be built, the
  transport fails, the body cannot be read, the trimmed body is no IP address, or the
  address has no IPv4 form).\<close>

definition serviceIPv4 :: "world \<Rightarrow> request list \<Rightarrow> string \<Rightarrow> byte list option" where
  "serviceIPv4 w tr svc =
     (if \<not> NewRequest w ''GET'' svc then None
      else
        (case Do w tr (getRequest svc) of
           None \<Rightarrow> None
         | Some resp \<Rightarrow>
            (case RespBody resp of
               None \<Rightarrow> None
             | Some body \<Rightarrow>
                (case ParseIP (TrimSpace body) of
                   None \<Rightarrow> None
                 | Some parsed \<Rightarrow> To4 parsed))))"

text \<open>The requests sent while the services \<open>svcs\<close> are visited without success, and the
  predicate that each service of a list fails when its turn comes.\<close>

definition issued :: "world \<Rightarrow> string list \<Rightarrow> request list" where
  "issued w svcs = map getRequest (filter (NewRequest w ''GET'') svcs)"

fun allFail :: "world \<Rightarrow> request list \<Rightarrow> string list \<Rightarrow> bool" where
  "allFail w tr [] = True"
| "allFail w tr (svc # svcs) =
     (serviceIPv4 w tr svc = None \<and> allFail w (tr @ issued w [svc]) svcs)"

text \<open>The five ways in which a service fails, spelled out.\<close>

lemma serviceIPv4_None_iff:
  "serviceIPv4 w tr svc = None \<longleftrightarrow>
     \<not> NewRequest w ''GET'' svc
     \<or> Do w tr (getRequest svc) = None
     \<or> (\<exists>resp. Do w tr (getRequest svc) = Some resp \<and> RespBody resp = None)
     \<or> (\<exists>resp body. Do w tr (getRequest svc) = Some resp \<and> RespBody resp = Some body
           \<and> ParseIP (TrimSpace body) = None)
     \<or> (\<exists>resp body parsed. Do w tr (getRequest svc) = Some resp \<and> RespBody resp = Some body
           \<and> ParseIP (TrimSpace body) = Some parsed \<and> To4 parsed = None)"
  by (auto simp: serviceIPv4_def split: option.splits)

lemma discoverIP_fail_step:
  "serviceIPv4 w tr svc = None \<Longrightarrow>
     discoverIP w tr (svc # rest) = discoverIP w (tr @ issued w [svc]) rest"
  by (auto simp: serviceIPv4_def issued_def split: option.splits if_splits)

lemma discoverIP_ok_step:
  "serviceIPv4 w tr svc = Some v \<Longrightarrow>
     discoverIP w tr (svc # rest) = (Inr (IP_String v), tr @ [getRequest svc])"
  by (auto simp: serviceIPv4_def split: option.splits if_splits)

lemma issued_Cons: "issued w (svc # svcs) = issued w [svc] @ issued w svcs"
  by (simp add: issued_def)

lemma discoverIP_allFail:
  "allFail w tr pre \<Longrightarrow> discoverIP w tr (pre @ rest) = discoverIP w (tr @ issued w pre) rest"
proof (induction pre arbitrary: tr)
  case Nil
  show ?case by (simp add: issued_def)
next
  case (Cons svc pre)
  from Cons.prems have f: "serviceIPv4 w tr svc = None"
    and r: "allFail w (tr @ issued w [svc]) pre" by simp_all
  have "discoverIP w tr ((svc # pre) @ rest) = discoverIP w (tr @ issued w [svc]) (pre @ rest)"
    using discoverIP_fail_step [OF f] by simp
  also have "\<dots> = discoverIP w ((tr @ issued w [svc]) @ issued w pre) rest"
    by (rule Cons.IH [OF r])
  also have "(tr @ issued w [svc]) @ issued w pre = tr @ issued w (svc # pre)"
    by (simp add: issued_Cons [of w svc pre])
  finally show ?case .
qed

lemma serviceIPv4_length: "serviceIPv4 w tr svc = Some v \<Longrightarrow> length v = 4"
  by (auto simp: serviceIPv4_def dest: To4_length split: option.splits if_splits)

lemma IP_String_dotted:
  "length v = 4 \<Longrightarrow>
     \<exists>a b c d. v = [a, b, c, d] \<and>
       IP_String v = ubtoa a @ ''.'' @ ubtoa b @ ''.'' @ ubtoa c @ ''.'' @ ubtoa d"
  by (cases v rule: IP_String.cases) auto

lemma digitChar_not_colon:
  fixes n :: nat
  assumes "n < 10"
  shows "digitChar n \<noteq> CHR '':''"
proof
  assume "digitChar n = CHR '':''"
  then have "(of_char (char_of (n + 48)) :: nat) = of_char (CHR '':'')"
    by (simp add: digitChar_def)
  then have "(n + 48) mod 256 = 58" by (simp only: of_char_of) simp
  with assms show False by simp
qed

lemma ubtoa_no_colon: "CHR '':'' \<notin> set (ubtoa v)"
proof -
  have "unat v < 256" using unsigned_less [of v] by simp
  then have d: "unat v div 100 < 10" "unat v div 10 mod 10 < 10" "unat v mod 10 < 10"
    by simp_all
  have e: "unat v < 100 \<Longrightarrow> unat v div 10 < 10" by simp
  show ?thesis
    using d e digitChar_not_colon [of "unat v"] digitChar_not_colon [of "unat v div 10"]
      digitChar_not_colon [of "unat v mod 10"] digitChar_not_colon [of "unat v div 100"]
      digitChar_not_colon [of "unat v div 10 mod 10"]
    by (auto simp: ubtoa_def)
qed

lemma IP_String_no_colon: "length v = 4 \<Longrightarrow> CHR '':'' \<notin> set (IP_String v)"
  using IP_String_dotted [of v] by (auto simp: ubtoa_no_colon)

lemma parseIPv4_loop_length:
  "parseIPv4_loop s prev val digLen fs = Some r \<Longrightarrow> length fs \<le> 3 \<Longrightarrow> length r = 4"
  by (induction s prev val digLen fs rule: parseIPv4_loop.induct)
     (auto split: if_splits)

lemma parseIPv4_length: "parseIPv4 s = Some r \<Longrightarrow> length r = 4"
  by (auto simp: parseIPv4_def dest: parseIPv4_loop_length)

lemma parseIPv6_loop_length:
  "parseIPv6_loop s ip e = Some (rest, ip', e') \<Longrightarrow> even (length ip) \<Longrightarrow> length ip \<le> 16
     \<Longrightarrow> even (length ip') \<and> length ip' \<le> 16"
proof (induction "length s" arbitrary: s ip e rule: less_induct)
  case less
  note u = less.prems(1) [unfolded parseIPv6_loop.simps [of s ip e]]
  show ?case
  proof (cases "length ip < 16")
    case False
    with u less.prems show ?thesis by simp
  next
    case True
    with less.prems(2) have le14: "length ip \<le> 14" by presburger
    from True u obtain acc off where hf: "hexField s 0 0 = Some (acc, off)"
      by (auto split: option.splits)
    let ?ip2 = "ip @ [of_nat (acc div 256), of_nat acc :: byte]"
    have ev2: "even (length ?ip2)" "length ?ip2 \<le> 16"
      using less.prems(2) le14 by auto
    have rec: "length s2 < length s \<Longrightarrow> parseIPv6_loop s2 ?ip2 e2 = Some (rest, ip', e')
        \<Longrightarrow> even (length ip') \<and> length ip' \<le> 16" for s2 e2
      using less.hyps [of s2 ?ip2 e2] ev2 by blast
    have sh1: "drop off s \<noteq> [] \<Longrightarrow> length (tl (drop off s)) < length s" by simp
    have sh2: "drop off s \<noteq> [] \<Longrightarrow> length (tl (tl (drop off s))) < length s" by simp
    from u True hf have u2:
      "(if off = 0 then None
          else if off < length s \<and> s ! off = CHR ''.'' then
            (if e = None \<and> length ip \<noteq> 12 then None
             else if length ip + 4 > 16 then None
             else case parseIPv4 s of
                    None \<Rightarrow> None
                  | Some v4 \<Rightarrow> Some ([], ip @ v4, e))
          else if drop off s = [] then
            Some ([], ?ip2, e)
          else if hd (drop off s) \<noteq> CHR '':'' then None
          else if length (drop off s) = 1 then None
          else if hd (tl (drop off s)) = CHR '':'' then
            (if e \<noteq> None then None
             else if tl (tl (drop off s)) = [] then
               Some ([], ?ip2, Some (length ip + 2))
             else parseIPv6_loop (tl (tl (drop off s))) ?ip2 (Some (length ip + 2)))
          else parseIPv6_loop (tl (drop off s)) ?ip2 e) = Some (rest, ip', e')"
      by simp
    show ?thesis
    proof (cases "off < length s \<and> s ! off = CHR ''.''")
      case True
      with u2 obtain v4 where "parseIPv4 s = Some v4" "ip' = ip @ v4" "length ip + 4 \<le> 16"
        by (auto split: if_splits option.splits)
      with less.prems(2) show ?thesis by (auto dest!: parseIPv4_length)
    next
      case dot: False
      show ?thesis
      proof (cases "drop off s = []")
        case True
        with u2 dot have "ip' = ?ip2" by (auto split: if_splits)
        with ev2 show ?thesis by simp
      next
        case False
        with u2 dot have
          "ip' = ?ip2 \<or> parseIPv6_loop (tl (tl (drop off s))) ?ip2 (Some (length ip + 2))
              = Some (rest, ip', e')
           \<or> parseIPv6_loop (tl (drop off s)) ?ip2 e = Some (rest, ip', e')"
          by (simp split: if_splits)
        with ev2 rec sh1 [OF False] sh2 [OF False] show ?thesis by blast
      qed
    qed
  qed
qed

lemma parseIPv6_length: "parseIPv6 s = Some (Addr6 ip zone) \<Longrightarrow> length ip = 16"
proof -
  assume a: "parseIPv6 s = Some (Addr6 ip zone)"
  have inv: "parseIPv6_loop t [] e = Some (rest, ip', e') \<Longrightarrow> even (length ip') \<and> length ip' \<le> 16"
    for t e rest ip' e'
    using parseIPv6_loop_length [of t "[]" e rest ip' e'] by simp
  from a show ?thesis
    by (auto simp: parseIPv6_def Let_def split: if_splits option.splits dest!: inv)
qed

lemma parseIPv6_Addr6: "parseIPv6 s = Some (Addr4 v4) \<Longrightarrow> False"
  by (auto simp: parseIPv6_def Let_def split: if_splits option.splits)

lemma ParseAddr_scan_length:
  "ParseAddr_scan s t = Some a \<Longrightarrow>
     (case a of Addr4 v4 \<Rightarrow> length v4 = 4 | Addr6 ip zone \<Rightarrow> length ip = 16)"
  by (induction s t rule: ParseAddr_scan.induct)
     (auto split: if_splits addr.splits dest: parseIPv4_length parseIPv6_length parseIPv6_Addr6)

lemma ParseIP_length: "ParseIP s = Some ip \<Longrightarrow> length ip = 16"
  using ParseAddr_scan_length [of s s]
  by (auto simp: ParseIP_def ParseAddr_def v4InV6Prefix_def split: option.splits addr.splits if_splits)

lemma replicate_numeral_step: "replicate (numeral k) x = x # replicate (pred_numeral k) x"
  by (simp add: numeral_eq_Suc)

text \<open>The library functions on the texts used in the examples below.\<close>

lemma TrimSpace_examples:
  "TrimSpace [] = []"
  "TrimSpace ''not-an-ip'' = ''not-an-ip''"
  "TrimSpace ''203.0.113.10'' = ''203.0.113.10''"
  "TrimSpace (''::ffff:203.0.113.10'' @ [CHR 0x0A]) = ''::ffff:203.0.113.10''"
  "TrimSpace ''2001:db8::1'' = ''2001:db8::1''"
  by (simp_all add: TrimSpace_def trimLeftRunes.simps leadingRune_def whiteSpace_def)

lemma ParseIP_examples:
  "ParseIP [] = None"
  "ParseIP ''not-an-ip'' = None"
  "ParseIP ''203.0.113.10'' = Some [0, 0, 0, 0, 0, 0, 0, 0, 0, 0, 0xff, 0xff, 203, 0, 113, 10]"
  "ParseIP ''::ffff:203.0.113.10'' = Some [0, 0, 0, 0, 0, 0, 0, 0, 0, 0, 0xff, 0xff, 203, 0, 113, 10]"
  "ParseIP ''2001:db8::1'' = Some [0x20, 0x01, 0x0d, 0xb8, 0, 0, 0, 0, 0, 0, 0, 0, 0, 0, 0, 1]"
  by (simp_all add: ParseIP_def ParseAddr_def parseIPv6_def parseIPv6_loop.simps hexVal_def ord_def
        parseIPv4_def isDigit_def digitVal_def v4InV6Prefix_def replicate_numeral_step)

lemma To4_examples:
  "To4 [0, 0, 0, 0, 0, 0, 0, 0, 0, 0, 0xff, 0xff, 203, 0, 113, 10] = Some [203, 0, 113, 10]"
  "To4 [0x20, 0x01, 0x0d, 0xb8, 0, 0, 0, 0, 0, 0, 0, 0, 0, 0, 0, 1] = None"
  by (simp_all add: To4_def v4InV6Prefix_def)

lemma IP_String_example: "IP_String [203, 0, 113, 10] = ''203.0.113.10''"
  by (simp add: ubtoa_def digitChar_def char_of_def bit_Suc_0_iff)

text \<open>A world after the repository's test of \<open>discoverIP\<close>: one service answers with
  status 500 and an empty body, one with a text that is no address, one with an IPv4
  address; two more answer with an IPv4-mapped IPv6 literal and with an IPv6 address.
  \<^verbatim>\<open>http.NewRequest\<close> refuses a URL with a control character.\<close>

definition mappedBody :: string where
  "mappedBody = ''::ffff:203.0.113.10'' @ [CHR 0x0A]"

definition testClient :: "request list \<Rightarrow> request \<Rightarrow> response option" where
  "testClient tr req =
     (if URL req = ''http://invalid.test'' then Some \<lparr>StatusCode = 500, RespBody = Some []\<rparr>
      else if URL req = ''http://bad-ip.test'' then
        Some \<lparr>StatusCode = 200, RespBody = Some ''not-an-ip''\<rparr>
      else if URL req = ''http://valid.test'' then
        Some \<lparr>StatusCode = 200, RespBody = Some ''203.0.113.10''\<rparr>
      else if URL req = ''http://mapped.test'' then
        Some \<lparr>StatusCode = 200, RespBody = Some mappedBody\<rparr>
      else if URL req = ''http://v6.test'' then
        Some \<lparr>StatusCode = 200, RespBody = Some ''2001:db8::1''\<rparr>
      else None)"

definition urlAccepted :: "string \<Rightarrow> string \<Rightarrow> bool" where
  "urlAccepted method url = list_all (\<lambda>c. 32 \<le> ord c \<and> ord c \<noteq> 127) url"

definition testWorld :: world where
  "testWorld =
     \<lparr>Getenv = (\<lambda>name. []), MapToLower = (\<lambda>s. s), MapToUpper = (\<lambda>s. s),
      NewRequest = urlAccepted, Do = testClient,
      DecodeList = (\<lambda>body. None), DecodeUpdate = (\<lambda>body. None),
      RecordsList = (\<lambda>client params. Inr []), RecordsUpdate = (\<lambda>client recordID params. None)\<rparr>"

lemma mappedBody_trimmed: "TrimSpace mappedBody = ''::ffff:203.0.113.10''"
  by (simp add: mappedBody_def TrimSpace_def trimLeftRunes.simps leadingRune_def whiteSpace_def)

declare discoverIP.simps [simp del] IP_String.simps [simp del]

lemma testWorld_services:
  "serviceIPv4 testWorld tr ''http://invalid.test'' = None"
  "serviceIPv4 testWorld tr ''http://bad-ip.test'' = None"
  "serviceIPv4 testWorld tr ''http://v6.test'' = None"
  "serviceIPv4 testWorld tr [CHR 0x01] = None"
  "serviceIPv4 testWorld tr ''http://valid.test'' = Some [203, 0, 113, 10]"
  "serviceIPv4 testWorld tr ''http://mapped.test'' = Some [203, 0, 113, 10]"
  by (simp_all add: serviceIPv4_def testWorld_def testClient_def urlAccepted_def getRequest_def
        ord_def TrimSpace_examples mappedBody_trimmed ParseIP_examples To4_examples)

lemma testWorld_issued:
  "issued testWorld [''http://invalid.test''] = [getRequest ''http://invalid.test'']"
  "issued testWorld [''http://bad-ip.test''] = [getRequest ''http://bad-ip.test'']"
  "issued testWorld [''http://v6.test''] = [getRequest ''http://v6.test'']"
  "issued testWorld [[CHR 0x01]] = []"
  by (simp_all add: issued_def testWorld_def urlAccepted_def ord_def)

text \<open>
  \<^bold>\<open>C1\<close>. When every service of \<open>pre\<close> fails in its turn and the next service \<open>svc\<close>
  answers with a body that parses to an address with the IPv4 form \<open>v4\<close>, \<open>discoverIP\<close>
  returns the dotted-decimal text of \<open>v4\<close> (the decimal of each of its four bytes, joined
  by dots), and the requests it has sent are those to the services of \<open>pre\<close> and the one
  to \<open>svc\<close>: whatever follows \<open>svc\<close> in the list is not queried.
\<close>

theorem discoverIP_first_success:
  assumes "allFail w tr pre"
    and "serviceIPv4 w (tr @ issued w pre) svc = Some v4"
  shows "discoverIP w tr (pre @ svc # post)
           = (Inr (IP_String v4), tr @ issued w pre @ [getRequest svc])
         \<and> (\<exists>a b c d. v4 = [a, b, c, d] \<and>
               IP_String v4 = ubtoa a @ ''.'' @ ubtoa b @ ''.'' @ ubtoa c @ ''.'' @ ubtoa d)"
proof -
  have "discoverIP w tr (pre @ svc # post) = discoverIP w (tr @ issued w pre) (svc # post)"
    using assms(1) by (rule discoverIP_allFail)
  also have "\<dots> = (Inr (IP_String v4), (tr @ issued w pre) @ [getRequest svc])"
    using assms(2) by (rule discoverIP_ok_step)
  finally have "discoverIP w tr (pre @ svc # post)
      = (Inr (IP_String v4), tr @ issued w pre @ [getRequest svc])" by simp
  moreover have "length v4 = 4" using assms(2) by (rule serviceIPv4_length)
  ultimately show ?thesis using IP_String_dotted [of v4] by simp
qed

theorem discoverIP_first_success_witness:
  "allFail testWorld [] [''http://invalid.test'', ''http://bad-ip.test'']
   \<and> serviceIPv4 testWorld
         (issued testWorld [''http://invalid.test'', ''http://bad-ip.test''])
         ''http://valid.test'' = Some [203, 0, 113, 10]
   \<and> discoverIP testWorld []
         [''http://invalid.test'', ''http://bad-ip.test'', ''http://valid.test'', ''http://v6.test'']
       = (Inr ''203.0.113.10'',
          [getRequest ''http://invalid.test'', getRequest ''http://bad-ip.test'',
           getRequest ''http://valid.test''])"
proof -
  have f: "allFail testWorld [] [''http://invalid.test'', ''http://bad-ip.test'']"
    by (simp add: testWorld_services)
  have s: "serviceIPv4 testWorld
             ([] @ issued testWorld [''http://invalid.test'', ''http://bad-ip.test''])
             ''http://valid.test'' = Some [203, 0, 113, 10]"
    by (simp add: testWorld_services)
  have i: "issued testWorld [''http://invalid.test'', ''http://bad-ip.test'']
      = [getRequest ''http://invalid.test'', getRequest ''http://bad-ip.test'']"
    using issued_Cons [of testWorld "''http://invalid.test''" "[''http://bad-ip.test'']"]
    by (simp add: testWorld_issued)
  have "discoverIP testWorld [] ([''http://invalid.test'', ''http://bad-ip.test'']
        @ ''http://valid.test'' # [''http://v6.test''])
      = (Inr (IP_String [203, 0, 113, 10]),
         [] @ issued testWorld [''http://invalid.test'', ''http://bad-ip.test'']
            @ [getRequest ''http://valid.test''])"
    using discoverIP_first_success [OF f s, of "[''http://v6.test'']"] by (rule conjunct1)
  with f s i show ?thesis by (simp add: IP_String_example)
qed

text \<open>
  \<^bold>\<open>C4\<close>. When every service of the list fails in its turn, \<open>discoverIP\<close> returns the one
  error \<open>DiscoverExhausted\<close> (the constant text "unable to discover IPv4 address from
  configured services", which carries no service) and no address.
\<close>

theorem discoverIP_exhausted:
  assumes "allFail w tr svcs"
  shows "discoverIP w tr svcs = (Inl DiscoverExhausted, tr @ issued w svcs)
         \<and> (\<forall>ip. fst (discoverIP w tr svcs) \<noteq> Inr ip)"
proof -
  have "discoverIP w tr (svcs @ []) = discoverIP w (tr @ issued w svcs) []"
    using assms by (rule discoverIP_allFail)
  then show ?thesis by (simp add: discoverIP.simps(1))
qed

theorem discoverIP_exhausted_witness:
  "allFail testWorld [] [''http://bad-ip.test'', ''http://v6.test'']
   \<and> discoverIP testWorld [] [''http://bad-ip.test'', ''http://v6.test'']
       = (Inl DiscoverExhausted, [getRequest ''http://bad-ip.test'', getRequest ''http://v6.test''])"
proof -
  have f: "allFail testWorld [] [''http://bad-ip.test'', ''http://v6.test'']"
    by (simp add: testWorld_services)
  have i: "issued testWorld [''http://bad-ip.test'', ''http://v6.test'']
      = [getRequest ''http://bad-ip.test'', getRequest ''http://v6.test'']"
    using issued_Cons [of testWorld "''http://bad-ip.test''" "[''http://v6.test'']"]
    by (simp add: testWorld_issued)
  have "discoverIP testWorld [] [''http://bad-ip.test'', ''http://v6.test'']
      = (Inl DiscoverExhausted,
         [] @ issued testWorld [''http://bad-ip.test'', ''http://v6.test''])"
    using discoverIP_exhausted [OF f] by (rule conjunct1)
  with f i show ?thesis by simp
qed

text \<open>
  \<^bold>\<open>C9\<close>. On the empty list \<open>discoverIP\<close> sends nothing (the requests are those sent
  before) and returns \<open>DiscoverExhausted\<close>, the error it also returns on a list whose
  services all fail.
\<close>

theorem discoverIP_no_services:
  "discoverIP w tr [] = (Inl DiscoverExhausted, tr)
   \<and> (allFail w tr svcs \<longrightarrow> fst (discoverIP w tr svcs) = fst (discoverIP w tr []))"
proof -
  have "allFail w tr svcs \<Longrightarrow> discoverIP w tr (svcs @ []) = discoverIP w (tr @ issued w svcs) []"
    by (rule discoverIP_allFail)
  then show ?thesis by (auto simp: discoverIP.simps(1))
qed

theorem discoverIP_no_services_witness:
  "discoverIP testWorld [] [] = (Inl DiscoverExhausted, [])
   \<and> allFail testWorld [] [''http://invalid.test'']
   \<and> fst (discoverIP testWorld [] [''http://invalid.test'']) = Inl DiscoverExhausted"
proof -
  have f: "allFail testWorld [] [''http://invalid.test'']"
    by (simp add: testWorld_services)
  from discoverIP_no_services [of testWorld "[]" "[''http://invalid.test'']"] f
  show ?thesis by (simp add: discoverIP.simps(1))
qed

text \<open>
  \<^bold>\<open>C10\<close>. A service whose body, trimmed, is an IPv6 literal (it has a colon) that parses to
  an address of the IPv4-mapped range (the address has an IPv4 form) is a success:
  \<open>discoverIP\<close> returns the dotted-decimal text of the four bytes, and this text is not the
  trimmed body.
\<close>

theorem discoverIP_mapped_literal:
  assumes "NewRequest w ''GET'' svc"
    and "Do w tr (getRequest svc) = Some resp"
    and "RespBody resp = Some body"
    and "CHR '':'' \<in> set (TrimSpace body)"
    and "ParseIP (TrimSpace body) = Some ip"
    and "take 12 ip = v4InV6Prefix"
  shows "discoverIP w tr (svc # rest) = (Inr (IP_String (drop 12 ip)), tr @ [getRequest svc])
         \<and> IP_String (drop 12 ip) \<noteq> TrimSpace body
         \<and> (\<exists>a b c d. drop 12 ip = [a, b, c, d] \<and>
               IP_String (drop 12 ip)
                 = ubtoa a @ ''.'' @ ubtoa b @ ''.'' @ ubtoa c @ ''.'' @ ubtoa d)"
proof -
  have len: "length ip = 16" using assms(5) by (rule ParseIP_length)
  then have to4: "To4 ip = Some (drop 12 ip)" using assms(6) by (simp add: To4_def)
  have "serviceIPv4 w tr svc = Some (drop 12 ip)"
    using assms(1,2,3,5) to4 by (simp add: serviceIPv4_def)
  then have r: "discoverIP w tr (svc # rest)
      = (Inr (IP_String (drop 12 ip)), tr @ [getRequest svc])"
    by (rule discoverIP_ok_step)
  have l4: "length (drop 12 ip) = 4" using len by simp
  then have "CHR '':'' \<notin> set (IP_String (drop 12 ip))" by (rule IP_String_no_colon)
  with assms(4) have "IP_String (drop 12 ip) \<noteq> TrimSpace body" by auto
  with r IP_String_dotted [OF l4] show ?thesis by simp
qed

theorem discoverIP_mapped_literal_witness:
  "NewRequest testWorld ''GET'' ''http://mapped.test''
   \<and> Do testWorld [] (getRequest ''http://mapped.test'')
       = Some \<lparr>StatusCode = 200, RespBody = Some mappedBody\<rparr>
   \<and> TrimSpace mappedBody = ''::ffff:203.0.113.10''
   \<and> ParseIP ''::ffff:203.0.113.10''
       = Some [0, 0, 0, 0, 0, 0, 0, 0, 0, 0, 0xff, 0xff, 203, 0, 113, 10]
   \<and> discoverIP testWorld [] [''http://mapped.test'', ''http://valid.test'']
       = (Inr ''203.0.113.10'', [getRequest ''http://mapped.test''])
   \<and> ''203.0.113.10'' \<noteq> ''::ffff:203.0.113.10''"
proof -
  let ?resp = "\<lparr>StatusCode = 200, RespBody = Some mappedBody\<rparr>"
  let ?ip = "[0, 0, 0, 0, 0, 0, 0, 0, 0, 0, 0xff, 0xff, 203, 0, 113, 10] :: byte list"
  have 1: "NewRequest testWorld ''GET'' ''http://mapped.test''"
    by (simp add: testWorld_def urlAccepted_def ord_def)
  have 2: "Do testWorld [] (getRequest ''http://mapped.test'') = Some ?resp"
    by (simp add: testWorld_def testClient_def getRequest_def)
  have 3: "RespBody ?resp = Some mappedBody" by simp
  have 4: "CHR '':'' \<in> set (TrimSpace mappedBody)"
    by (simp add: mappedBody_trimmed)
  have 5: "ParseIP (TrimSpace mappedBody) = Some ?ip"
    by (simp add: mappedBody_trimmed ParseIP_examples)
  have 6: "take 12 ?ip = v4InV6Prefix" by (simp add: v4InV6Prefix_def)
  have "discoverIP testWorld [] [''http://mapped.test'', ''http://valid.test'']
      = (Inr (IP_String (drop 12 ?ip)), [] @ [getRequest ''http://mapped.test''])"
    using discoverIP_mapped_literal [OF 1 2 3 4 5 6, of "[''http://valid.test'']"]
    by (rule conjunct1)
  with 1 2 show ?thesis
    by (simp add: IP_String_example mappedBody_trimmed ParseIP_examples)
qed

section \<open>Properties of loadConfig\<close>

text \<open>The invariant of the data model on a configuration, and the environments from
  which \<open>loadConfig\<close> builds one: each condition is on the trimmed value of a variable.\<close>

definition validConfig :: "Config \<Rightarrow> bool" where
  "validConfig cfg \<longleftrightarrow>
     60 \<le> TTL cfg \<and> IPServices cfg \<noteq> [] \<and> RecordType cfg = ''A'' \<and> AuthKey cfg \<noteq> []
     \<and> ZoneID cfg \<noteq> [] \<and> RecordName cfg \<noteq> []
     \<and> (AuthMethod cfg = ''token'' \<or> AuthMethod cfg = ''global'')
     \<and> (AuthMethod cfg = ''global'' \<longrightarrow> AuthEmail cfg \<noteq> [])"

definition validEnvironment :: "world \<Rightarrow> bool" where
  "validEnvironment w \<longleftrightarrow>
     (TrimSpace (Getenv w envTTL) = []
        \<or> (case Atoi (TrimSpace (Getenv w envTTL)) of None \<Rightarrow> False | Some ttl \<Rightarrow> 60 \<le> ttl))
     \<and> (ToLower w (TrimSpace (Getenv w envProxied)) = []
        \<or> ToLower w (TrimSpace (Getenv w envProxied)) = ''false''
        \<or> ToLower w (TrimSpace (Getenv w envProxied)) = ''true'')
     \<and> TrimSpace (Getenv w envAuthKey) \<noteq> []
     \<and> (ToLower w (TrimSpace (Getenv w envAuthMethod)) = []
        \<or> ToLower w (TrimSpace (Getenv w envAuthMethod)) = ''token''
        \<or> (ToLower w (TrimSpace (Getenv w envAuthMethod)) = ''global''
            \<and> TrimSpace (Getenv w envAuthEmail) \<noteq> []))
     \<and> TrimSpace (Getenv w envZoneID) \<noteq> []
     \<and> TrimSpace (Getenv w envRecordName) \<noteq> []
     \<and> (ToUpper w (TrimSpace (Getenv w envRecordType)) = []
        \<or> ToUpper w (TrimSpace (Getenv w envRecordType)) = ''A'')"

lemma ToLower_empty: "ToLower w [] = []"
  by (simp add: ToLower_def isASCII_def)

text \<open>The three values \<open>loadConfig\<close> computes before its checks, and the checks on the
  configuration built from them, named for the proofs.\<close>

definition ttlResult :: "world \<Rightarrow> error + int" where
  "ttlResult w =
     (if TrimSpace (Getenv w envTTL) = [] then Inr defaultTTL
      else (case Atoi (TrimSpace (Getenv w envTTL)) of
              None \<Rightarrow> Inl (InvalidValue envTTL (TrimSpace (Getenv w envTTL)))
            | Some ttl \<Rightarrow>
                if ttl < 60 then Inl (InvalidValue envTTL (TrimSpace (Getenv w envTTL)))
                else Inr ttl))"

definition proxiedResult :: "world \<Rightarrow> error + bool" where
  "proxiedResult w =
     (if ToLower w (TrimSpace (Getenv w envProxied)) = []
         \<or> ToLower w (TrimSpace (Getenv w envProxied)) = ''false''
      then Inr False
      else if ToLower w (TrimSpace (Getenv w envProxied)) = ''true'' then Inr True
      else Inl (InvalidValue envProxied (TrimSpace (Getenv w envProxied))))"

definition servicesResult :: "world \<Rightarrow> string list" where
  "servicesResult w =
     (if TrimSpace (Getenv w envIPServices) = [] then defaultIPServices
      else if filter (\<lambda>trimmed. trimmed \<noteq> [])
                (map TrimSpace (Split (TrimSpace (Getenv w envIPServices)) (CHR '',''))) = []
      then defaultIPServices
      else filter (\<lambda>trimmed. trimmed \<noteq> [])
             (map TrimSpace (Split (TrimSpace (Getenv w envIPServices)) (CHR '',''))))"

definition validated :: "Config \<Rightarrow> error + Config" where
  "validated cfg =
     (if AuthKey cfg = [] then Inl (Required envAuthKey)
      else if AuthMethod cfg \<noteq> ''token'' \<and> AuthMethod cfg \<noteq> ''global'' then
        Inl (UnsupportedAuthMethod (AuthMethod cfg))
      else if AuthMethod cfg = ''global'' \<and> AuthEmail cfg = [] then
        Inl (RequiredWhenGlobal envAuthEmail envAuthMethod)
      else if ZoneID cfg = [] then Inl (Required envZoneID)
      else if RecordName cfg = [] then Inl (Required envRecordName)
      else if RecordType cfg \<noteq> ''A'' then Inl (UnsupportedRecordType (RecordType cfg))
      else Inr cfg)"

definition assembled :: "world \<Rightarrow> int \<Rightarrow> bool \<Rightarrow> Config" where
  "assembled w ttl proxied =
     \<lparr>AuthEmail = TrimSpace (Getenv w envAuthEmail),
      AuthMethod = (if ToLower w (TrimSpace (Getenv w envAuthMethod)) = [] then ''token''
                    else ToLower w (TrimSpace (Getenv w envAuthMethod))),
      AuthKey = TrimSpace (Getenv w envAuthKey),
      ZoneID = TrimSpace (Getenv w envZoneID),
      RecordName = TrimSpace (Getenv w envRecordName),
      RecordType = (if ToUpper w (TrimSpace (Getenv w envRecordType)) = [] then defaultRecordType
                    else ToUpper w (TrimSpace (Getenv w envRecordType))),
      TTL = ttl, Proxied = proxied, IPServices = servicesResult w\<rparr>"

lemma loadConfig_unfold:
  "loadConfig w =
     (case ttlResult w of
        Inl e \<Rightarrow> Inl e
      | Inr ttl \<Rightarrow>
         (case proxiedResult w of
            Inl e \<Rightarrow> Inl e
          | Inr proxied \<Rightarrow> validated (assembled w ttl proxied)))"
proof (cases "ttlResult w")
  case (Inl e)
  then show ?thesis by (simp add: loadConfig_def Let_def ttlResult_def)
next
  case t: (Inr ttl)
  show ?thesis
  proof (cases "proxiedResult w")
    case (Inl e)
    with t show ?thesis by (simp add: loadConfig_def Let_def ttlResult_def proxiedResult_def)
  next
    case (Inr proxied)
    with t show ?thesis
      by (simp add: loadConfig_def Let_def ttlResult_def proxiedResult_def
            validated_def assembled_def servicesResult_def)
  qed
qed

lemma ttlResult_Inr:
  "ttlResult w = Inr ttl \<Longrightarrow> 60 \<le> ttl \<and> (TrimSpace (Getenv w envTTL) = [] \<longrightarrow> ttl = 300)"
  by (auto simp: ttlResult_def defaultTTL_def split: if_splits option.splits)

lemma ttlResult_iff:
  "(\<exists>ttl. ttlResult w = Inr ttl) \<longleftrightarrow>
     (TrimSpace (Getenv w envTTL) = []
        \<or> (case Atoi (TrimSpace (Getenv w envTTL)) of None \<Rightarrow> False | Some ttl \<Rightarrow> 60 \<le> ttl))"
  by (auto simp: ttlResult_def split: if_splits option.splits)

lemma proxiedResult_Inr:
  "proxiedResult w = Inr proxied \<Longrightarrow> TrimSpace (Getenv w envProxied) = [] \<Longrightarrow> \<not> proxied"
  by (auto simp: proxiedResult_def ToLower_empty split: if_splits)

lemma proxiedResult_iff:
  "(\<exists>proxied. proxiedResult w = Inr proxied) \<longleftrightarrow>
     (ToLower w (TrimSpace (Getenv w envProxied)) = []
        \<or> ToLower w (TrimSpace (Getenv w envProxied)) = ''false''
        \<or> ToLower w (TrimSpace (Getenv w envProxied)) = ''true'')"
  by (auto simp: proxiedResult_def split: if_splits)

lemma servicesResult_nonempty: "servicesResult w \<noteq> []"
  by (simp add: servicesResult_def defaultIPServices_def)

lemma validated_Inr: "validated cfg = Inr cfg' \<Longrightarrow> cfg' = cfg"
  by (simp add: validated_def split: if_splits)

lemma validated_iff:
  "(\<exists>cfg'. validated cfg = Inr cfg') \<longleftrightarrow>
     AuthKey cfg \<noteq> [] \<and> (AuthMethod cfg = ''token'' \<or> AuthMethod cfg = ''global'')
     \<and> (AuthMethod cfg = ''global'' \<longrightarrow> AuthEmail cfg \<noteq> [])
     \<and> ZoneID cfg \<noteq> [] \<and> RecordName cfg \<noteq> [] \<and> RecordType cfg = ''A''"
  by (simp add: validated_def)

lemma loadConfig_Inr:
  assumes "loadConfig w = Inr cfg"
  obtains ttl proxied where "ttlResult w = Inr ttl" "proxiedResult w = Inr proxied"
    "cfg = assembled w ttl proxied" "validated cfg = Inr cfg"
proof -
  from assms obtain ttl proxied where t: "ttlResult w = Inr ttl"
    and p: "proxiedResult w = Inr proxied"
    and c: "validated (assembled w ttl proxied) = Inr cfg"
    by (auto simp: loadConfig_unfold split: sum.splits)
  from c have "cfg = assembled w ttl proxied" by (rule validated_Inr)
  with t p c that show thesis by simp
qed

lemma loadConfig_valid: "loadConfig w = Inr cfg \<Longrightarrow> validConfig cfg"
proof -
  assume a: "loadConfig w = Inr cfg"
  then obtain ttl proxied where t: "ttlResult w = Inr ttl"
    and u: "cfg = assembled w ttl proxied" and c: "validated cfg = Inr cfg"
    by (rule loadConfig_Inr)
  from c have "\<exists>cfg'. validated cfg = Inr cfg'" by blast
  then have k: "AuthKey cfg \<noteq> [] \<and> (AuthMethod cfg = ''token'' \<or> AuthMethod cfg = ''global'')
     \<and> (AuthMethod cfg = ''global'' \<longrightarrow> AuthEmail cfg \<noteq> [])
     \<and> ZoneID cfg \<noteq> [] \<and> RecordName cfg \<noteq> [] \<and> RecordType cfg = ''A''"
    using validated_iff [of cfg] by blast
  from u have "TTL cfg = ttl" "IPServices cfg = servicesResult w"
    by (simp_all add: assembled_def)
  with ttlResult_Inr [OF t] servicesResult_nonempty [of w] k show ?thesis
    by (simp add: validConfig_def)
qed

lemma loadConfig_defaults:
  assumes "loadConfig w = Inr cfg"
  shows "TrimSpace (Getenv w envTTL) = [] \<Longrightarrow> TTL cfg = 300"
    and "TrimSpace (Getenv w envProxied) = [] \<Longrightarrow> \<not> Proxied cfg"
    and "TrimSpace (Getenv w envIPServices) = [] \<Longrightarrow> IPServices cfg = defaultIPServices"
proof -
  from assms obtain ttl proxied where t: "ttlResult w = Inr ttl"
    and p: "proxiedResult w = Inr proxied"
    and u: "cfg = assembled w ttl proxied"
    by (rule loadConfig_Inr)
  from u have f: "TTL cfg = ttl" "Proxied cfg = proxied" "IPServices cfg = servicesResult w"
    by (simp_all add: assembled_def)
  show "TrimSpace (Getenv w envTTL) = [] \<Longrightarrow> TTL cfg = 300"
    using ttlResult_Inr [OF t] f by simp
  show "TrimSpace (Getenv w envProxied) = [] \<Longrightarrow> \<not> Proxied cfg"
    using proxiedResult_Inr [OF p] f by simp
  show "TrimSpace (Getenv w envIPServices) = [] \<Longrightarrow> IPServices cfg = defaultIPServices"
    using f by (simp add: servicesResult_def)
qed

lemma loadConfig_succeeds_iff: "(\<exists>cfg. loadConfig w = Inr cfg) \<longleftrightarrow> validEnvironment w"
proof -
  have "(\<exists>cfg. loadConfig w = Inr cfg) \<longleftrightarrow>
      (\<exists>ttl. ttlResult w = Inr ttl) \<and> (\<exists>proxied. proxiedResult w = Inr proxied)
      \<and> (\<forall>ttl proxied. \<exists>cfg'. validated (assembled w ttl proxied) = Inr cfg')"
    by (auto simp: loadConfig_unfold validated_iff assembled_def split: sum.splits)
  then show ?thesis
    unfolding ttlResult_iff proxiedResult_iff validated_iff validEnvironment_def
    by (auto simp: assembled_def defaultRecordType_def)
qed

text \<open>Two environments after the repository's tests of \<open>loadConfig\<close>: one that sets only
  the three required variables, and one that sets every variable.\<close>

definition defaultsEnv :: "string \<Rightarrow> string" where
  "defaultsEnv name =
     (if name = envAuthKey then ''token-value''
      else if name = envZoneID then ''zone-id''
      else if name = envRecordName then ''example.com''
      else [])"

definition configEnv :: "string \<Rightarrow> string" where
  "configEnv name =
     (if name = envAuthKey then ''token-value''
      else if name = envZoneID then ''zone-id''
      else if name = envRecordName then ''example.com''
      else if name = envAuthMethod then ''TOKEN''
      else if name = envAuthEmail then ''user@example.com''
      else if name = envTTL then ''600''
      else if name = envProxied then ''true''
      else if name = envIPServices then ''http://invalid.test, http://valid.test''
      else [])"

definition defaultsConfig :: Config where
  "defaultsConfig =
     \<lparr>AuthEmail = [], AuthMethod = ''token'', AuthKey = ''token-value'', ZoneID = ''zone-id'',
      RecordName = ''example.com'', RecordType = ''A'', TTL = 300, Proxied = False,
      IPServices = [''https://api.ipify.org'', ''https://ipv4.icanhazip.com'',
                    ''https://ipinfo.io/ip'']\<rparr>"

definition exampleConfig :: Config where
  "exampleConfig =
     \<lparr>AuthEmail = ''user@example.com'', AuthMethod = ''token'', AuthKey = ''token-value'',
      ZoneID = ''zone-id'', RecordName = ''example.com'', RecordType = ''A'', TTL = 600,
      Proxied = True, IPServices = [''http://invalid.test'', ''http://valid.test'']\<rparr>"

lemmas env_names =
  envAuthEmail_def envAuthMethod_def envAuthKey_def envZoneID_def envRecordName_def
  envRecordType_def envTTL_def envProxied_def envIPServices_def

lemmas TrimSpace_eval = TrimSpace_def trimLeftRunes.simps leadingRune_def whiteSpace_def

lemma defaultsEnv_values:
  "TrimSpace (defaultsEnv envAuthEmail) = []"
  "TrimSpace (defaultsEnv envAuthMethod) = []"
  "TrimSpace (defaultsEnv envAuthKey) = ''token-value''"
  "TrimSpace (defaultsEnv envZoneID) = ''zone-id''"
  "TrimSpace (defaultsEnv envRecordName) = ''example.com''"
  "TrimSpace (defaultsEnv envRecordType) = []"
  "TrimSpace (defaultsEnv envTTL) = []"
  "TrimSpace (defaultsEnv envProxied) = []"
  "TrimSpace (defaultsEnv envIPServices) = []"
  by (simp_all add: defaultsEnv_def env_names TrimSpace_eval)

lemma configEnv_values:
  "TrimSpace (configEnv envAuthEmail) = ''user@example.com''"
  "TrimSpace (configEnv envAuthMethod) = ''TOKEN''"
  "TrimSpace (configEnv envAuthKey) = ''token-value''"
  "TrimSpace (configEnv envZoneID) = ''zone-id''"
  "TrimSpace (configEnv envRecordName) = ''example.com''"
  "TrimSpace (configEnv envRecordType) = []"
  "TrimSpace (configEnv envTTL) = ''600''"
  "TrimSpace (configEnv envProxied) = ''true''"
  "TrimSpace (configEnv envIPServices) = ''http://invalid.test, http://valid.test''"
  by (simp_all add: configEnv_def env_names TrimSpace_eval)

lemma case_examples:
  "ToLower w [] = []" "ToUpper w [] = []"
  "ToLower w ''TOKEN'' = ''token''" "ToLower w ''true'' = ''true''"
  by (simp_all add: ToLower_def ToUpper_def isASCII_def lowerByte_def ord_def char_of_def
        bit_Suc_0_iff)

lemma Atoi_example: "Atoi ''600'' = Some 600"
  by (simp add: Atoi_def Let_def isDigit_def digitVal_def ord_def)

lemma services_example:
  "TrimSpace ''http://invalid.test'' = ''http://invalid.test''"
  "TrimSpace '' http://valid.test'' = ''http://valid.test''"
  by (simp_all add: TrimSpace_eval)

lemma loadConfig_defaultsEnv:
  "Getenv w = defaultsEnv \<Longrightarrow> loadConfig w = Inr defaultsConfig"
  by (simp add: loadConfig_unfold ttlResult_def proxiedResult_def servicesResult_def
        validated_def assembled_def defaultsEnv_values case_examples defaultsConfig_def
        defaultTTL_def defaultRecordType_def defaultIPServices_def)

lemma loadConfig_configEnv:
  "Getenv w = configEnv \<Longrightarrow> loadConfig w = Inr exampleConfig"
  by (simp add: loadConfig_unfold ttlResult_def proxiedResult_def servicesResult_def
        validated_def assembled_def configEnv_values case_examples Atoi_example
        services_example exampleConfig_def defaultRecordType_def)

lemma loadConfig_empty_env:
  "Getenv w = (\<lambda>name. []) \<Longrightarrow> loadConfig w = Inl (Required envAuthKey)"
  by (simp add: loadConfig_unfold ttlResult_def proxiedResult_def servicesResult_def
        validated_def assembled_def TrimSpace_examples case_examples)

text \<open>
  \<^bold>\<open>C8\<close>. A configuration that \<open>loadConfig\<close> returns satisfies the invariant of the data
  model: the TTL is at least 60, and 300 when the variable is unset; the proxied flag is
  false when unset; the list of services is not empty, and the three default endpoints when
  unset; the record type is \<open>A\<close>; key, zone and record name are not empty; the method is
  \<open>token\<close> or \<open>global\<close>, and under \<open>global\<close> the email is not empty. \<open>loadConfig\<close> returns
  a configuration exactly from the environments that meet these conditions, and an error
  from every other.
\<close>

theorem loadConfig_invariant:
  "(loadConfig w = Inr cfg \<longrightarrow>
      validConfig cfg
      \<and> (TrimSpace (Getenv w envTTL) = [] \<longrightarrow> TTL cfg = 300)
      \<and> (TrimSpace (Getenv w envProxied) = [] \<longrightarrow> \<not> Proxied cfg)
      \<and> (TrimSpace (Getenv w envIPServices) = [] \<longrightarrow>
            IPServices cfg = [''https://api.ipify.org'', ''https://ipv4.icanhazip.com'',
                              ''https://ipinfo.io/ip'']))
   \<and> (validEnvironment w \<longrightarrow> (\<exists>cfg'. loadConfig w = Inr cfg'))
   \<and> (\<not> validEnvironment w \<longrightarrow> (\<exists>e. loadConfig w = Inl e))"
proof -
  have "\<not> validEnvironment w \<Longrightarrow> \<exists>e. loadConfig w = Inl e"
    using loadConfig_succeeds_iff [of w] by (cases "loadConfig w") auto
  moreover have "validEnvironment w \<Longrightarrow> \<exists>cfg'. loadConfig w = Inr cfg'"
    using loadConfig_succeeds_iff [of w] by simp
  ultimately show ?thesis
    using loadConfig_valid [of w cfg] loadConfig_defaults [of w cfg]
    by (auto simp: defaultIPServices_def)
qed

theorem loadConfig_invariant_witness:
  "loadConfig (testWorld\<lparr>Getenv := defaultsEnv\<rparr>) = Inr defaultsConfig
   \<and> validConfig defaultsConfig
   \<and> TTL defaultsConfig = 300 \<and> \<not> Proxied defaultsConfig
   \<and> IPServices defaultsConfig
       = [''https://api.ipify.org'', ''https://ipv4.icanhazip.com'', ''https://ipinfo.io/ip'']
   \<and> validEnvironment (testWorld\<lparr>Getenv := defaultsEnv\<rparr>)
   \<and> \<not> validEnvironment testWorld
   \<and> loadConfig testWorld = Inl (Required envAuthKey)"
proof -
  let ?w = "testWorld\<lparr>Getenv := defaultsEnv\<rparr>"
  have l: "loadConfig ?w = Inr defaultsConfig" by (simp add: loadConfig_defaultsEnv)
  have e: "loadConfig testWorld = Inl (Required envAuthKey)"
    by (simp add: loadConfig_empty_env testWorld_def)
  have t: "TrimSpace (Getenv ?w envTTL) = []" "TrimSpace (Getenv ?w envProxied) = []"
    "TrimSpace (Getenv ?w envIPServices) = []"
    by (simp_all add: defaultsEnv_values)
  have v: "validEnvironment ?w"
    by (simp add: validEnvironment_def defaultsEnv_values case_examples)
  have n: "\<not> validEnvironment testWorld"
    by (simp add: validEnvironment_def testWorld_def TrimSpace_examples)
  from loadConfig_invariant [of ?w defaultsConfig] loadConfig_invariant [of testWorld] l e t v n
  show ?thesis by simp
qed

section \<open>Properties of the requests\<close>

lemma applyAuthHeaders_fields:
  "Method (applyAuthHeaders req cfg) = Method req"
  "URL (applyAuthHeaders req cfg) = URL req"
  "Body (applyAuthHeaders req cfg) = Body req"
  by (simp_all add: applyAuthHeaders_def Header_Set_def Let_def)

lemma fetchRequest_fields:
  "Method (fetchRequest cfg) = ''GET''"
  "URL (fetchRequest cfg) = fetchEndpoint cfg"
  "Body (fetchRequest cfg) = None"
  by (simp_all add: fetchRequest_def applyAuthHeaders_fields)

lemma updateRequest_fields:
  "Method (updateRequest cfg recordID newIP) = ''PATCH''"
  "URL (updateRequest cfg recordID newIP) = updateEndpoint cfg recordID"
  "Body (updateRequest cfg recordID newIP) = Some (updateBody cfg newIP)"
  by (simp_all add: updateRequest_def applyAuthHeaders_fields Header_Set_def)

lemma applyAuthHeaders_token:
  "AuthMethod cfg = ''token'' \<Longrightarrow>
     Header_Get (applyAuthHeaders req cfg) ''Authorization'' = Some (''Bearer '' @ AuthKey cfg)"
  by (simp add: applyAuthHeaders_def Header_Set_def Header_Get_def Let_def update_Some_unfold)

lemma applyAuthHeaders_global:
  "AuthMethod cfg = ''global'' \<Longrightarrow> AuthEmail cfg \<noteq> [] \<Longrightarrow>
     Header_Get (applyAuthHeaders req cfg) ''X-Auth-Key'' = Some (AuthKey cfg)
     \<and> Header_Get (applyAuthHeaders req cfg) ''X-Auth-Email'' = Some (AuthEmail cfg)"
  by (simp add: applyAuthHeaders_def Header_Set_def Header_Get_def Let_def update_Some_unfold
        update_conv')

lemma applyAuthHeaders_other:
  "k \<noteq> ''X-Auth-Email'' \<Longrightarrow> k \<noteq> ''X-Auth-Key'' \<Longrightarrow> k \<noteq> ''Authorization'' \<Longrightarrow>
     Header_Get (applyAuthHeaders req cfg) k = Header_Get req k"
  by (simp add: applyAuthHeaders_def Header_Set_def Header_Get_def Let_def update_conv')

lemma applyAuthHeaders_same:
  "k \<in> {''X-Auth-Email'', ''X-Auth-Key'', ''Authorization''} \<Longrightarrow>
     Header_Get req k = Header_Get req' k \<Longrightarrow>
     Header_Get (applyAuthHeaders req cfg) k = Header_Get (applyAuthHeaders req' cfg) k"
  by (auto simp: applyAuthHeaders_def Header_Set_def Header_Get_def Let_def update_conv')

lemma auth_headers_shared:
  assumes "k \<noteq> ''Content-Type''"
  shows "Header_Get (updateRequest cfg recordID newIP) k = Header_Get (fetchRequest cfg) k"
proof (cases "k \<in> {''X-Auth-Email'', ''X-Auth-Key'', ''Authorization''}")
  case True
  show ?thesis
    unfolding updateRequest_def fetchRequest_def
    using assms by (intro applyAuthHeaders_same [OF True]) (simp add: Header_Set_def Header_Get_def)
next
  case False
  then have k: "k \<noteq> ''X-Auth-Email''" "k \<noteq> ''X-Auth-Key''" "k \<noteq> ''Authorization''"
    by auto
  have "Header_Get (updateRequest cfg recordID newIP) k
      = Header_Get (Header_Set \<lparr>Method = ''PATCH'', URL = updateEndpoint cfg recordID,
                                 Header = [], Body = Some (updateBody cfg newIP)\<rparr>
                      ''Content-Type'' ''application/json'') k"
    unfolding updateRequest_def using k by (rule applyAuthHeaders_other)
  also have "\<dots> = None" using assms by (simp add: Header_Set_def Header_Get_def)
  also have "None = Header_Get \<lparr>Method = ''GET'', URL = fetchEndpoint cfg, Header = [],
                                Body = None\<rparr> k"
    by (simp add: Header_Get_def)
  also have "\<dots> = Header_Get (fetchRequest cfg) k"
    unfolding fetchRequest_def using k by (rule applyAuthHeaders_other [symmetric])
  finally show ?thesis .
qed

lemma fetchRequest_token_only:
  "AuthMethod cfg = ''token'' \<Longrightarrow> AuthEmail cfg = [] \<Longrightarrow>
     Header (fetchRequest cfg) = [(''Authorization'', ''Bearer '' @ AuthKey cfg)]"
  by (simp add: fetchRequest_def applyAuthHeaders_def Header_Set_def Let_def)

text \<open>A configuration after the repository's test of \<open>updateDNSRecord\<close>, under the global
  key.\<close>

definition globalConfig :: Config where
  "globalConfig =
     \<lparr>AuthEmail = ''user@example.com'', AuthMethod = ''global'', AuthKey = ''global-key'',
      ZoneID = ''zone-id'', RecordName = ''example.com'', RecordType = ''A'', TTL = 120,
      Proxied = True, IPServices = [''http://valid.test'']\<rparr>"

text \<open>
  \<^bold>\<open>C5\<close>. For every configuration of the data model: under the token method the fetch and
  the update request carry \<open>Authorization: Bearer <key>\<close>, with no email configured this is
  the only header of the fetch request, and the SDK client is built from the token alone;
  under the global key both requests carry \<open>X-Auth-Key\<close> and \<open>X-Auth-Email\<close>, and the SDK
  client is built from key and email. Both requests get their headers from
  \<open>applyAuthHeaders\<close>: apart from the content type of the update they carry the same
  headers.
\<close>

theorem auth_headers:
  assumes "validConfig cfg"
  shows "(AuthMethod cfg = ''token'' \<longrightarrow>
            Header_Get (fetchRequest cfg) ''Authorization'' = Some (''Bearer '' @ AuthKey cfg)
            \<and> Header_Get (updateRequest cfg recordID newIP) ''Authorization''
                = Some (''Bearer '' @ AuthKey cfg)
            \<and> (AuthEmail cfg = [] \<longrightarrow>
                  Header (fetchRequest cfg) = [(''Authorization'', ''Bearer '' @ AuthKey cfg)])
            \<and> newCloudflareClient cfg = Inr [WithHTTPClient, WithAPIToken (AuthKey cfg)])
         \<and> (AuthMethod cfg = ''global'' \<longrightarrow>
            Header_Get (fetchRequest cfg) ''X-Auth-Key'' = Some (AuthKey cfg)
            \<and> Header_Get (fetchRequest cfg) ''X-Auth-Email'' = Some (AuthEmail cfg)
            \<and> Header_Get (updateRequest cfg recordID newIP) ''X-Auth-Key'' = Some (AuthKey cfg)
            \<and> Header_Get (updateRequest cfg recordID newIP) ''X-Auth-Email''
                = Some (AuthEmail cfg)
            \<and> newCloudflareClient cfg
                = Inr [WithHTTPClient, WithAPIKey (AuthKey cfg), WithAPIEmail (AuthEmail cfg)])
         \<and> (\<forall>k. k \<noteq> ''Content-Type'' \<longrightarrow>
               Header_Get (updateRequest cfg recordID newIP) k = Header_Get (fetchRequest cfg) k)"
proof -
  have t: "AuthMethod cfg = ''token'' \<Longrightarrow>
      Header_Get (fetchRequest cfg) ''Authorization'' = Some (''Bearer '' @ AuthKey cfg)"
    unfolding fetchRequest_def by (rule applyAuthHeaders_token)
  have g: "AuthMethod cfg = ''global'' \<Longrightarrow>
      Header_Get (fetchRequest cfg) ''X-Auth-Key'' = Some (AuthKey cfg)
      \<and> Header_Get (fetchRequest cfg) ''X-Auth-Email'' = Some (AuthEmail cfg)"
    unfolding fetchRequest_def using assms by (intro applyAuthHeaders_global) (auto simp: validConfig_def)
  have s: "Header_Get (updateRequest cfg recordID newIP) k = Header_Get (fetchRequest cfg) k"
    if "k \<noteq> ''Content-Type''" for k
    using that by (rule auth_headers_shared)
  have c: "AuthMethod cfg = ''token'' \<Longrightarrow>
      newCloudflareClient cfg = Inr [WithHTTPClient, WithAPIToken (AuthKey cfg)]"
    "AuthMethod cfg = ''global'' \<Longrightarrow>
      newCloudflareClient cfg
        = Inr [WithHTTPClient, WithAPIKey (AuthKey cfg), WithAPIEmail (AuthEmail cfg)]"
    by (simp_all add: newCloudflareClient_def)
  from t g c fetchRequest_token_only [of cfg]
    s [of "''Authorization''"] s [of "''X-Auth-Key''"] s [of "''X-Auth-Email''"] s
  show ?thesis by simp
qed

theorem auth_headers_witness:
  "validConfig defaultsConfig \<and> AuthMethod defaultsConfig = ''token''
   \<and> AuthEmail defaultsConfig = []
   \<and> Header (fetchRequest defaultsConfig) = [(''Authorization'', ''Bearer token-value'')]
   \<and> Header_Get (updateRequest defaultsConfig ''record-id'' ''198.51.100.3'') ''Authorization''
       = Some ''Bearer token-value''
   \<and> validConfig globalConfig \<and> AuthMethod globalConfig = ''global''
   \<and> Header_Get (fetchRequest globalConfig) ''X-Auth-Key'' = Some ''global-key''
   \<and> Header_Get (fetchRequest globalConfig) ''X-Auth-Email'' = Some ''user@example.com''
   \<and> Header_Get (updateRequest globalConfig ''record-id'' ''198.51.100.3'') ''X-Auth-Key''
       = Some ''global-key''
   \<and> Header_Get (updateRequest globalConfig ''record-id'' ''198.51.100.3'') ''X-Auth-Email''
       = Some ''user@example.com''
   \<and> newCloudflareClient globalConfig
       = Inr [WithHTTPClient, WithAPIKey ''global-key'', WithAPIEmail ''user@example.com'']"
proof -
  have d: "validConfig defaultsConfig" by (simp add: validConfig_def defaultsConfig_def)
  have g: "validConfig globalConfig" by (simp add: validConfig_def globalConfig_def)
  have f: "AuthMethod defaultsConfig = ''token''" "AuthEmail defaultsConfig = []"
    "AuthKey defaultsConfig = ''token-value''"
    "AuthMethod globalConfig = ''global''" "AuthKey globalConfig = ''global-key''"
    "AuthEmail globalConfig = ''user@example.com''"
    by (simp_all add: defaultsConfig_def globalConfig_def)
  from auth_headers [OF d, of "''record-id''" "''198.51.100.3''"]
    auth_headers [OF g, of "''record-id''" "''198.51.100.3''"] d g f
  show ?thesis by simp
qed

section \<open>Properties of a run\<close>

lemma discoverIP_trace:
  "discoverIP w tr svcs = (r, tr') \<Longrightarrow>
     \<exists>new. tr' = tr @ new \<and> (\<forall>q \<in> set new. Method q = ''GET'')"
proof (induction svcs arbitrary: tr)
  case Nil
  then show ?case by (simp add: discoverIP.simps)
next
  case (Cons svc svcs)
  show ?case
  proof (cases "serviceIPv4 w tr svc")
    case None
    with Cons.prems have "discoverIP w (tr @ issued w [svc]) svcs = (r, tr')"
      by (simp add: discoverIP_fail_step)
    from Cons.IH [OF this] obtain new where
      "tr' = (tr @ issued w [svc]) @ new" "\<forall>q \<in> set new. Method q = ''GET''" by blast
    then have "tr' = tr @ (issued w [svc] @ new)
        \<and> (\<forall>q \<in> set (issued w [svc] @ new). Method q = ''GET'')"
      by (auto simp: issued_def getRequest_def)
    then show ?thesis by blast
  next
    case (Some v)
    with Cons.prems have "tr' = tr @ [getRequest svc]"
      by (simp add: discoverIP_ok_step)
    then have "tr' = tr @ [getRequest svc] \<and> (\<forall>q \<in> set [getRequest svc]. Method q = ''GET'')"
      by (simp add: getRequest_def)
    then show ?thesis by blast
  qed
qed

lemma discoverIP_Inr:
  "discoverIP w tr svcs = (Inr ip, tr') \<Longrightarrow> \<exists>v4. length v4 = 4 \<and> ip = IP_String v4"
proof (induction svcs arbitrary: tr)
  case Nil
  then show ?case by (simp add: discoverIP.simps)
next
  case (Cons svc svcs)
  show ?case
  proof (cases "serviceIPv4 w tr svc")
    case None
    with Cons.prems have "discoverIP w (tr @ issued w [svc]) svcs = (Inr ip, tr')"
      by (simp add: discoverIP_fail_step)
    then show ?thesis by (rule Cons.IH)
  next
    case (Some v)
    with Cons.prems have "ip = IP_String v" by (simp add: discoverIP_ok_step)
    with serviceIPv4_length [OF Some] show ?thesis by blast
  qed
qed

lemma fetchDNSRecord_http_trace:
  "fetchDNSRecord_http w tr cfg = (r, tr') \<Longrightarrow> tr' = tr \<or> tr' = tr @ [fetchRequest cfg]"
  by (auto simp: fetchDNSRecord_http_def split: if_splits option.splits list.splits)

lemma fetchDNSRecord_http_Inr:
  "fetchDNSRecord_http w tr cfg = (Inr record, tr') \<Longrightarrow> tr' = tr @ [fetchRequest cfg]"
  by (auto simp: fetchDNSRecord_http_def split: if_splits option.splits list.splits)

lemma updateDNSRecord_http_trace:
  "updateDNSRecord_http w tr cfg recordID newIP = (r, tr') \<Longrightarrow>
     (if NewRequest w ''PATCH'' (updateEndpoint cfg recordID)
      then tr' = tr @ [updateRequest cfg recordID newIP]
      else tr' = tr \<and> r = Some NewRequestFailed)"
  by (auto simp: updateDNSRecord_http_def split: if_splits option.splits)

text \<open>The requests of a run over plain HTTP: those of the discovery, then at most the
  fetch, then at most the update.\<close>

lemma main_http_requests:
  "\<forall>q \<in> set (snd (main_http w)). Method q = ''GET'' \<or> Method q = ''PATCH''"
proof (cases "loadConfig w")
  case (Inl e)
  then show ?thesis by (simp add: main_http_def)
next
  case (Inr cfg)
  obtain r tr where d: "discoverIP w [] (IPServices cfg) = (r, tr)" by fastforce
  from discoverIP_trace [OF d] have g: "\<forall>q \<in> set tr. Method q = ''GET''" by auto
  show ?thesis
  proof (cases r)
    case (Inl e)
    with Inr d g show ?thesis by (simp add: main_http_def)
  next
    case ip: (Inr ip)
    obtain r2 tr2 where f: "fetchDNSRecord_http w tr cfg = (r2, tr2)" by fastforce
    from fetchDNSRecord_http_trace [OF f] g
    have g2: "\<forall>q \<in> set tr2. Method q = ''GET''" by (auto simp: fetchRequest_fields)
    show ?thesis
    proof (cases r2)
      case (Inl e)
      with Inr d ip f g2 show ?thesis by (simp add: main_http_def)
    next
      case rcd: (Inr fetched)
      obtain r3 tr3 where u: "updateDNSRecord_http w tr2 cfg (ID fetched) ip = (r3, tr3)"
        by fastforce
      from updateDNSRecord_http_trace [OF u] g2
      have g3: "\<forall>q \<in> set tr3. Method q = ''GET'' \<or> Method q = ''PATCH''"
        by (auto simp: updateRequest_fields split: if_splits)
      from Inr d ip f rcd u g2 g3 show ?thesis
        by (cases r3) (auto simp: main_http_def)
    qed
  qed
qed

lemma main_sdk_requests: "\<forall>q \<in> set (fst (snd (main_sdk w))). Method q = ''GET''"
proof (cases "loadConfig w")
  case (Inl e)
  then show ?thesis by (simp add: main_sdk_def)
next
  case (Inr cfg)
  obtain r tr where d: "discoverIP w [] (IPServices cfg) = (r, tr)" by fastforce
  from discoverIP_trace [OF d] have g: "\<forall>q \<in> set tr. Method q = ''GET''" by auto
  have "fst (snd (main_sdk w)) = tr"
    using Inr d
    by (auto simp: main_sdk_def split: sum.splits prod.splits option.splits)
  with g show ?thesis by simp
qed

text \<open>A world for whole runs: the environment \<open>configEnv\<close>, the services of \<open>testWorld\<close>,
  and a provider that answers the fetch with the given status and list response (its body
  stands as the text \<open>listed\<close>) and every update with success. The SDK calls answer from the
  same list response.\<close>

definition providerRecord :: "string \<Rightarrow> string \<Rightarrow> DNSRecord" where
  "providerRecord recordID content =
     \<lparr>ID = recordID, Type = ''A'', Name = ''example.com'', Content = content, RecordTTL = 120,
      RecordProxied = False\<rparr>"

definition listed :: "DNSRecord list \<Rightarrow> listResponse" where
  "listed records = \<lparr>Success = True, Errors = [], Result = records\<rparr>"

definition sdkRecord :: "DNSRecord \<Rightarrow> dns_Record" where
  "sdkRecord r =
     \<lparr>SdkID = ID r, SdkName = Name r, SdkType = Type r,
      AsUnion = (if Type r = ''A'' then ARecord (Content r) else OtherRecord)\<rparr>"

definition exampleClient :: "nat \<Rightarrow> request list \<Rightarrow> request \<Rightarrow> response option" where
  "exampleClient status tr req =
     (if Method req = ''PATCH'' then Some \<lparr>StatusCode = 200, RespBody = Some ''updated''\<rparr>
      else if URL req = fetchEndpoint exampleConfig then
        Some \<lparr>StatusCode = status, RespBody = Some ''listed''\<rparr>
      else testClient tr req)"

definition exampleWorld :: "nat \<Rightarrow> listResponse \<Rightarrow> world" where
  "exampleWorld status payload =
     \<lparr>Getenv = configEnv, MapToLower = (\<lambda>s. s), MapToUpper = (\<lambda>s. s),
      NewRequest = urlAccepted, Do = exampleClient status,
      DecodeList = (\<lambda>body. if body = ''listed'' then Some payload else None),
      DecodeUpdate = (\<lambda>body. if body = ''updated''
                               then Some \<lparr>UpdateSuccess = True, UpdateErrors = []\<rparr> else None),
      RecordsList = (\<lambda>client params. if status = 200 \<and> Success payload
                                       then Inr (map sdkRecord (Result payload))
                                       else Inl (SDKError ''rejected'')),
      RecordsUpdate = (\<lambda>client recordID params. None)\<rparr>"

lemma exampleWorld_loadConfig: "loadConfig (exampleWorld status payload) = Inr exampleConfig"
  by (rule loadConfig_configEnv) (simp add: exampleWorld_def)

lemma exampleWorld_services:
  "serviceIPv4 (exampleWorld status payload) tr ''http://invalid.test'' = None"
  "serviceIPv4 (exampleWorld status payload) tr ''http://valid.test'' = Some [203, 0, 113, 10]"
  by (simp_all add: serviceIPv4_def exampleWorld_def exampleClient_def testClient_def
        urlAccepted_def getRequest_def fetchEndpoint_def exampleConfig_def
        ord_def TrimSpace_examples ParseIP_examples To4_examples)

lemma exampleWorld_discoverIP:
  "discoverIP (exampleWorld status payload) [] (IPServices exampleConfig)
     = (Inr ''203.0.113.10'', [getRequest ''http://invalid.test'', getRequest ''http://valid.test''])"
proof -
  let ?w = "exampleWorld status payload"
  have i: "issued ?w [''http://invalid.test''] = [getRequest ''http://invalid.test'']"
    by (simp add: issued_def exampleWorld_def urlAccepted_def ord_def)
  have "discoverIP ?w [] [''http://invalid.test'', ''http://valid.test'']
      = discoverIP ?w ([] @ issued ?w [''http://invalid.test'']) [''http://valid.test'']"
    by (rule discoverIP_fail_step) (rule exampleWorld_services)
  also have "\<dots> = (Inr (IP_String [203, 0, 113, 10]),
      ([] @ issued ?w [''http://invalid.test'']) @ [getRequest ''http://valid.test''])"
    by (rule discoverIP_ok_step) (rule exampleWorld_services)
  finally show ?thesis by (simp add: i IP_String_example exampleConfig_def)
qed

lemma exampleWorld_fetch:
  "NewRequest (exampleWorld status payload) ''GET'' (fetchEndpoint exampleConfig)"
  "Do (exampleWorld status payload) tr (fetchRequest exampleConfig)
     = Some \<lparr>StatusCode = status, RespBody = Some ''listed''\<rparr>"
  "DecodeList (exampleWorld status payload) ''listed'' = Some payload"
  by (simp_all add: exampleWorld_def exampleClient_def fetchRequest_fields urlAccepted_def
        fetchEndpoint_def exampleConfig_def ord_def)

lemma exampleWorld_fetchDNSRecord:
  "fetchDNSRecord_http (exampleWorld 200 (listed (r # rs))) tr exampleConfig
     = (Inr r, tr @ [fetchRequest exampleConfig])"
  by (simp add: fetchDNSRecord_http_def exampleWorld_fetch listed_def)

lemma exampleWorld_update:
  "NewRequest (exampleWorld status payload) ''PATCH'' (updateEndpoint exampleConfig ''record-id'')"
  "Do (exampleWorld status payload) tr (updateRequest exampleConfig recordID newIP)
     = Some \<lparr>StatusCode = 200, RespBody = Some ''updated''\<rparr>"
  "DecodeUpdate (exampleWorld status payload) ''updated''
     = Some \<lparr>UpdateSuccess = True, UpdateErrors = []\<rparr>"
  by (simp_all add: exampleWorld_def exampleClient_def updateRequest_fields urlAccepted_def
        updateEndpoint_def exampleConfig_def ord_def)

lemma exampleWorld_updateDNSRecord:
  "updateDNSRecord_http (exampleWorld status payload) tr exampleConfig ''record-id'' newIP
     = (None, tr @ [updateRequest exampleConfig ''record-id'' newIP])"
  by (simp add: updateDNSRecord_http_def exampleWorld_update)

lemma main_http_fetch_failed:
  "loadConfig w = Inr cfg \<Longrightarrow> discoverIP w [] (IPServices cfg) = (Inr ip, tr) \<Longrightarrow>
     fetchDNSRecord_http w tr cfg = (Inl e, tr') \<Longrightarrow> main_http w = (FetchFailed e, tr')"
  by (simp add: main_http_def)

lemma main_http_fetched:
  "loadConfig w = Inr cfg \<Longrightarrow> discoverIP w [] (IPServices cfg) = (Inr ip, tr) \<Longrightarrow>
     fetchDNSRecord_http w tr cfg = (Inr rcd, tr') \<Longrightarrow>
     main_http w =
       (if Content rcd = ip then (NoOpDone, tr')
        else (case updateDNSRecord_http w tr' cfg (ID rcd) ip of
                (Some e, tr'') \<Rightarrow> (UpdateFailed e, tr'')
              | (None, tr'') \<Rightarrow> (Done, tr'')))"
  by (simp add: main_http_def)

lemma main_sdk_fetch_failed:
  "loadConfig w = Inr cfg \<Longrightarrow> discoverIP w [] (IPServices cfg) = (Inr ip, tr) \<Longrightarrow>
     newCloudflareClient cfg = Inr client \<Longrightarrow>
     fetchDNSRecord_sdk w [] client cfg = (Inl e, calls) \<Longrightarrow>
     main_sdk w = (FetchFailed e, tr, calls)"
  by (simp add: main_sdk_def)

lemma main_sdk_fetched:
  "loadConfig w = Inr cfg \<Longrightarrow> discoverIP w [] (IPServices cfg) = (Inr ip, tr) \<Longrightarrow>
     newCloudflareClient cfg = Inr client \<Longrightarrow>
     fetchDNSRecord_sdk w [] client cfg = (Inr rcd, calls) \<Longrightarrow>
     extractARecordIP rcd = Inr currentIP \<Longrightarrow>
     main_sdk w =
       (if currentIP = ip then (NoOpDone, tr, calls)
        else (case updateDNSRecord_sdk w calls client cfg (SdkID rcd) ip of
                (Some e, calls') \<Rightarrow> (UpdateFailed e, tr, calls')
              | (None, calls') \<Rightarrow> (Done, tr, calls')))"
  by (simp add: main_sdk_def)

lemma fetchDNSRecord_http_empty:
  assumes "NewRequest w ''GET'' (fetchEndpoint cfg)"
    and "Do w tr (fetchRequest cfg) = Some resp"
    and "StatusCode resp = 200"
    and "RespBody resp = Some body"
    and "DecodeList w body = Some payload"
  shows "Success payload \<Longrightarrow> Result payload = [] \<Longrightarrow>
           fetchDNSRecord_http w tr cfg
             = (Inl (NoMatchingRecord (RecordName cfg)), tr @ [fetchRequest cfg])"
    and "\<not> Success payload \<Longrightarrow>
           fetchDNSRecord_http w tr cfg
             = (Inl (CloudflareError (Errors payload)), tr @ [fetchRequest cfg])"
  using assms by (simp_all add: fetchDNSRecord_http_def)

lemma no_patch_after_fetch:
  assumes "discoverIP w [] svcs = (r, tr)"
  shows "\<forall>q \<in> set (tr @ [fetchRequest cfg]). Method q \<noteq> ''PATCH''"
  using discoverIP_trace [OF assms] by (auto simp: fetchRequest_fields)

text \<open>
  \<^bold>\<open>C7\<close>. A fetch whose response has status 200, decodes, reports success and lists no
  record fails with \<open>NoMatchingRecord\<close> (the SDK variant does on an empty page), and the run
  ends there; no request of any run has a method other than \<open>GET\<close> (discovery and fetch)
  and \<open>PATCH\<close> (update of the fetched record), so none creates a record.
\<close>

theorem fetch_not_found:
  "(NewRequest w ''GET'' (fetchEndpoint cfg) \<and> Do w tr (fetchRequest cfg) = Some resp
      \<and> StatusCode resp = 200 \<and> RespBody resp = Some body \<and> DecodeList w body = Some payload
      \<and> Success payload \<and> Result payload = [] \<longrightarrow>
        fetchDNSRecord_http w tr cfg
          = (Inl (NoMatchingRecord (RecordName cfg)), tr @ [fetchRequest cfg])
        \<and> (loadConfig w = Inr cfg \<and> discoverIP w [] (IPServices cfg) = (Inr ip, tr) \<longrightarrow>
             main_http w
               = (FetchFailed (NoMatchingRecord (RecordName cfg)), tr @ [fetchRequest cfg])))
   \<and> (RecordsList w client (listParams cfg) = Inr [] \<longrightarrow>
        fetchDNSRecord_sdk w calls client cfg
          = (Inl (NoMatchingRecord (RecordName cfg)),
             calls @ [RecordsListCall client (listParams cfg)]))
   \<and> (\<forall>q \<in> set (snd (main_http w)). Method q = ''GET'' \<or> Method q = ''PATCH'')
   \<and> (\<forall>q \<in> set (fst (snd (main_sdk w))). Method q = ''GET'')"
proof -
  have a: "fetchDNSRecord_http w tr cfg
      = (Inl (NoMatchingRecord (RecordName cfg)), tr @ [fetchRequest cfg])"
    if "NewRequest w ''GET'' (fetchEndpoint cfg)" "Do w tr (fetchRequest cfg) = Some resp"
      "StatusCode resp = 200" "RespBody resp = Some body" "DecodeList w body = Some payload"
      "Success payload" "Result payload = []"
    using that by (rule fetchDNSRecord_http_empty(1))
  have b: "main_http w
      = (FetchFailed (NoMatchingRecord (RecordName cfg)), tr @ [fetchRequest cfg])"
    if "fetchDNSRecord_http w tr cfg
      = (Inl (NoMatchingRecord (RecordName cfg)), tr @ [fetchRequest cfg])"
      "loadConfig w = Inr cfg" "discoverIP w [] (IPServices cfg) = (Inr ip, tr)"
    using that(2,3,1) by (rule main_http_fetch_failed)
  have c: "fetchDNSRecord_sdk w calls client cfg
      = (Inl (NoMatchingRecord (RecordName cfg)),
         calls @ [RecordsListCall client (listParams cfg)])"
    if "RecordsList w client (listParams cfg) = Inr []"
    using that by (simp add: fetchDNSRecord_sdk_def)
  from a b c main_http_requests [of w] main_sdk_requests [of w] show ?thesis by blast
qed

theorem fetch_not_found_witness:
  "NewRequest (exampleWorld 200 (listed [])) ''GET'' (fetchEndpoint exampleConfig)
   \<and> Do (exampleWorld 200 (listed []))
        [getRequest ''http://invalid.test'', getRequest ''http://valid.test'']
        (fetchRequest exampleConfig)
       = Some \<lparr>StatusCode = 200, RespBody = Some ''listed''\<rparr>
   \<and> DecodeList (exampleWorld 200 (listed [])) ''listed'' = Some (listed [])
   \<and> Success (listed []) \<and> Result (listed []) = []
   \<and> RecordsList (exampleWorld 200 (listed [])) [WithHTTPClient, WithAPIToken ''token-value'']
        (listParams exampleConfig) = Inr []
   \<and> main_http (exampleWorld 200 (listed []))
       = (FetchFailed (NoMatchingRecord ''example.com''),
          [getRequest ''http://invalid.test'', getRequest ''http://valid.test'',
           fetchRequest exampleConfig])
   \<and> fetchDNSRecord_sdk (exampleWorld 200 (listed [])) []
        [WithHTTPClient, WithAPIToken ''token-value''] exampleConfig
       = (Inl (NoMatchingRecord ''example.com''),
          [RecordsListCall [WithHTTPClient, WithAPIToken ''token-value'']
             (listParams exampleConfig)])"
proof -
  let ?w = "exampleWorld 200 (listed [])"
  let ?tr = "[getRequest ''http://invalid.test'', getRequest ''http://valid.test'']"
  let ?resp = "\<lparr>StatusCode = 200, RespBody = Some ''listed''\<rparr>"
  let ?client = "[WithHTTPClient, WithAPIToken ''token-value'']"
  have h: "NewRequest ?w ''GET'' (fetchEndpoint exampleConfig)"
    "Do ?w ?tr (fetchRequest exampleConfig) = Some ?resp"
    "StatusCode ?resp = 200" "RespBody ?resp = Some ''listed''"
    "DecodeList ?w ''listed'' = Some (listed [])"
    "Success (listed [])" "Result (listed []) = []"
    by (simp_all add: exampleWorld_fetch listed_def)
  have s: "RecordsList ?w ?client (listParams exampleConfig) = Inr []"
    by (simp add: exampleWorld_def listed_def)
  have n: "RecordName exampleConfig = ''example.com''" by (simp add: exampleConfig_def)
  from fetch_not_found [of ?w exampleConfig ?tr ?resp "''listed''" "listed []"
      "''203.0.113.10''" ?client "[]"]
    h s exampleWorld_loadConfig [of 200 "listed []"] exampleWorld_discoverIP [of 200 "listed []"] n
  show ?thesis by simp
qed

text \<open>A list response by which the provider rejects the request.\<close>

definition rejected :: listResponse where
  "rejected =
     \<lparr>Success = False, Errors = [\<lparr>Code = 10000, Message = ''Authentication error''\<rparr>],
      Result = []\<rparr>"

lemma exampleWorld_forbidden:
  "fetchDNSRecord_http (exampleWorld 403 rejected) tr exampleConfig
     = (Inl (UnexpectedStatus 403), tr @ [fetchRequest exampleConfig])"
  by (simp add: fetchDNSRecord_http_def exampleWorld_fetch)

text \<open>
  \<^bold>\<open>C6\<close>, as stated, fails: \<open>fetchDNSRecord\<close> looks at the status before it decodes the
  body. A response with status 403 whose body decodes to \<open>success = false\<close> with an error
  list is reported as \<open>UnexpectedStatus 403\<close>, and the provider's errors are not surfaced.
\<close>

theorem fetch_rejected_counterexample:
  "Do (exampleWorld 403 rejected) [] (fetchRequest exampleConfig)
     = Some \<lparr>StatusCode = 403, RespBody = Some ''listed''\<rparr>
   \<and> DecodeList (exampleWorld 403 rejected) ''listed'' = Some rejected
   \<and> \<not> Success rejected
   \<and> Errors rejected = [\<lparr>Code = 10000, Message = ''Authentication error''\<rparr>]
   \<and> fetchDNSRecord_http (exampleWorld 403 rejected) [] exampleConfig
       = (Inl (UnexpectedStatus 403), [fetchRequest exampleConfig])
   \<and> fst (fetchDNSRecord_http (exampleWorld 403 rejected) [] exampleConfig)
       \<noteq> Inl (CloudflareError (Errors rejected))"
proof -
  have "\<not> Success rejected"
    "Errors rejected = [\<lparr>Code = 10000, Message = ''Authentication error''\<rparr>]"
    by (simp_all add: rejected_def)
  then show ?thesis by (simp add: exampleWorld_fetch exampleWorld_forbidden)
qed

text \<open>
  \<^bold>\<open>C6\<close>, amended. When the fetch response has status 200 and its body decodes to a list
  response with \<open>success = false\<close>, \<open>fetchDNSRecord\<close> returns \<open>CloudflareError\<close> with the
  provider's error list, the run ends as \<open>FetchFailed\<close> with that error, and no request of
  the run is a \<open>PATCH\<close>.
\<close>

theorem fetch_rejected:
  assumes "loadConfig w = Inr cfg"
    and "discoverIP w [] (IPServices cfg) = (Inr ip, tr)"
    and "NewRequest w ''GET'' (fetchEndpoint cfg)"
    and "Do w tr (fetchRequest cfg) = Some resp"
    and "StatusCode resp = 200"
    and "RespBody resp = Some body"
    and "DecodeList w body = Some payload"
    and "\<not> Success payload"
  shows "fetchDNSRecord_http w tr cfg
           = (Inl (CloudflareError (Errors payload)), tr @ [fetchRequest cfg])
         \<and> main_http w = (FetchFailed (CloudflareError (Errors payload)), tr @ [fetchRequest cfg])
         \<and> (\<forall>q \<in> set (snd (main_http w)). Method q \<noteq> ''PATCH'')"
proof -
  have f: "fetchDNSRecord_http w tr cfg
      = (Inl (CloudflareError (Errors payload)), tr @ [fetchRequest cfg])"
    using assms(3-8) by (rule fetchDNSRecord_http_empty(2))
  have m: "main_http w = (FetchFailed (CloudflareError (Errors payload)), tr @ [fetchRequest cfg])"
    using assms(1,2) f by (rule main_http_fetch_failed)
  from f m no_patch_after_fetch [OF assms(2), of cfg] show ?thesis by simp
qed

theorem fetch_rejected_witness:
  "loadConfig (exampleWorld 200 rejected) = Inr exampleConfig
   \<and> discoverIP (exampleWorld 200 rejected) [] (IPServices exampleConfig)
       = (Inr ''203.0.113.10'',
          [getRequest ''http://invalid.test'', getRequest ''http://valid.test''])
   \<and> NewRequest (exampleWorld 200 rejected) ''GET'' (fetchEndpoint exampleConfig)
   \<and> Do (exampleWorld 200 rejected)
        [getRequest ''http://invalid.test'', getRequest ''http://valid.test'']
        (fetchRequest exampleConfig)
       = Some \<lparr>StatusCode = 200, RespBody = Some ''listed''\<rparr>
   \<and> DecodeList (exampleWorld 200 rejected) ''listed'' = Some rejected
   \<and> \<not> Success rejected
   \<and> main_http (exampleWorld 200 rejected)
       = (FetchFailed (CloudflareError [\<lparr>Code = 10000, Message = ''Authentication error''\<rparr>]),
          [getRequest ''http://invalid.test'', getRequest ''http://valid.test'',
           fetchRequest exampleConfig])"
proof -
  let ?w = "exampleWorld 200 rejected"
  let ?tr = "[getRequest ''http://invalid.test'', getRequest ''http://valid.test'']"
  let ?resp = "\<lparr>StatusCode = 200, RespBody = Some ''listed''\<rparr>"
  have 1: "loadConfig ?w = Inr exampleConfig" by (rule exampleWorld_loadConfig)
  have 2: "discoverIP ?w [] (IPServices exampleConfig) = (Inr ''203.0.113.10'', ?tr)"
    by (rule exampleWorld_discoverIP)
  have 3: "NewRequest ?w ''GET'' (fetchEndpoint exampleConfig)" by (rule exampleWorld_fetch)
  have 4: "Do ?w ?tr (fetchRequest exampleConfig) = Some ?resp" by (rule exampleWorld_fetch)
  have 5: "StatusCode ?resp = 200" by simp
  have 6: "RespBody ?resp = Some ''listed''" by simp
  have 7: "DecodeList ?w ''listed'' = Some rejected" by (rule exampleWorld_fetch)
  have 8: "\<not> Success rejected" by (simp add: rejected_def)
  have "main_http ?w
      = (FetchFailed (CloudflareError (Errors rejected)), ?tr @ [fetchRequest exampleConfig])"
    using fetch_rejected [OF 1 2 3 4 5 6 7 8] by simp
  with 1 2 3 4 7 8 show ?thesis by (simp add: rejected_def)
qed

text \<open>The normalisation to canonical IPv4 text that the specification speaks of, as
  \<open>discoverIP\<close> applies it to the body of a service: trim, parse, take the IPv4 form,
  render.\<close>

definition canonicalIPv4 :: "string \<Rightarrow> string option" where
  "canonicalIPv4 s =
     (case ParseIP (TrimSpace s) of
        None \<Rightarrow> None
      | Some parsed \<Rightarrow> map_option IP_String (To4 parsed))"

lemma canonicalIPv4_examples:
  "canonicalIPv4 ''::ffff:203.0.113.10'' = Some ''203.0.113.10''"
  "canonicalIPv4 ''203.0.113.10'' = Some ''203.0.113.10''"
  by (simp_all add: canonicalIPv4_def TrimSpace_eval ParseIP_examples To4_examples
        IP_String_example)

lemma exampleWorld_sdk:
  "newCloudflareClient exampleConfig = Inr [WithHTTPClient, WithAPIToken ''token-value'']"
  "fetchDNSRecord_sdk (exampleWorld 200 (listed (r # rs))) [] client exampleConfig
     = (Inr (sdkRecord r), [RecordsListCall client (listParams exampleConfig)])"
  "updateDNSRecord_sdk (exampleWorld status payload) calls client exampleConfig recordID newIP
     = (None, calls @ [RecordsUpdateCall client recordID (updateParams exampleConfig newIP)])"
  by (simp_all add: newCloudflareClient_def fetchDNSRecord_sdk_def updateDNSRecord_sdk_def
        exampleWorld_def listed_def exampleConfig_def)

text \<open>
  \<^bold>\<open>C2\<close>, as stated, fails: the record's content is not normalised before the comparison.
  The provider holds the content \<open>::ffff:203.0.113.10\<close>, the discovered address is
  \<open>203.0.113.10\<close>; both have the canonical IPv4 text \<open>203.0.113.10\<close>, and yet both variants
  of the driver send an update.
\<close>

theorem driver_compare_counterexample:
  "canonicalIPv4 (Content (providerRecord ''record-id'' ''::ffff:203.0.113.10''))
     = canonicalIPv4 ''203.0.113.10''
   \<and> discoverIP (exampleWorld 200 (listed [providerRecord ''record-id'' ''::ffff:203.0.113.10'']))
        [] (IPServices exampleConfig)
       = (Inr ''203.0.113.10'',
          [getRequest ''http://invalid.test'', getRequest ''http://valid.test''])
   \<and> main_http (exampleWorld 200 (listed [providerRecord ''record-id'' ''::ffff:203.0.113.10'']))
       = (Done,
          [getRequest ''http://invalid.test'', getRequest ''http://valid.test'',
           fetchRequest exampleConfig,
           updateRequest exampleConfig ''record-id'' ''203.0.113.10''])
   \<and> main_sdk (exampleWorld 200 (listed [providerRecord ''record-id'' ''::ffff:203.0.113.10'']))
       = (Done,
          [getRequest ''http://invalid.test'', getRequest ''http://valid.test''],
          [RecordsListCall [WithHTTPClient, WithAPIToken ''token-value'']
             (listParams exampleConfig),
           RecordsUpdateCall [WithHTTPClient, WithAPIToken ''token-value''] ''record-id''
             (updateParams exampleConfig ''203.0.113.10'')])"
proof -
  let ?r = "providerRecord ''record-id'' ''::ffff:203.0.113.10''"
  let ?w = "exampleWorld 200 (listed [?r])"
  let ?tr = "[getRequest ''http://invalid.test'', getRequest ''http://valid.test'']"
  let ?client = "[WithHTTPClient, WithAPIToken ''token-value'']"
  have c: "Content ?r = ''::ffff:203.0.113.10''" "ID ?r = ''record-id''"
    by (simp_all add: providerRecord_def)
  have 1: "loadConfig ?w = Inr exampleConfig" by (rule exampleWorld_loadConfig)
  have 2: "discoverIP ?w [] (IPServices exampleConfig) = (Inr ''203.0.113.10'', ?tr)"
    by (rule exampleWorld_discoverIP)
  have 3: "fetchDNSRecord_http ?w ?tr exampleConfig = (Inr ?r, ?tr @ [fetchRequest exampleConfig])"
    by (rule exampleWorld_fetchDNSRecord)
  have h: "main_http ?w
      = (Done, ?tr @ [fetchRequest exampleConfig,
                      updateRequest exampleConfig ''record-id'' ''203.0.113.10''])"
    using main_http_fetched [OF 1 2 3] by (simp add: c exampleWorld_updateDNSRecord)
  have 4: "fetchDNSRecord_sdk ?w [] ?client exampleConfig
      = (Inr (sdkRecord ?r), [RecordsListCall ?client (listParams exampleConfig)])"
    by (rule exampleWorld_sdk)
  have 5: "extractARecordIP (sdkRecord ?r) = Inr ''::ffff:203.0.113.10''"
    by (simp add: extractARecordIP_def sdkRecord_def providerRecord_def TrimSpace_eval)
  have i: "SdkID (sdkRecord ?r) = ''record-id''" by (simp add: sdkRecord_def providerRecord_def)
  have s: "main_sdk ?w
      = (Done, ?tr, [RecordsListCall ?client (listParams exampleConfig),
                     RecordsUpdateCall ?client ''record-id''
                       (updateParams exampleConfig ''203.0.113.10'')])"
    using main_sdk_fetched [OF 1 2 exampleWorld_sdk(1) 4 5] by (simp add: i exampleWorld_sdk)
  from c 2 h s show ?thesis by (simp add: canonicalIPv4_examples)
qed

text \<open>
  \<^bold>\<open>C2\<close>, amended. The discovered address is canonical dotted-decimal text, and the driver
  compares it as a string with the content of the fetched record as the provider returned it
  (with surrounding white space trimmed in the SDK variant); the content is not normalised.
  When the two are equal the run ends as \<open>NoOpDone\<close> with the requests of discovery and fetch
  and no update; when they differ \<open>updateDNSRecord\<close> is called and decides how the run ends;
  so the run ends as \<open>NoOpDone\<close> exactly when the two strings are equal.
\<close>

theorem driver_compare:
  assumes "loadConfig w = Inr cfg"
    and "discoverIP w [] (IPServices cfg) = (Inr ip, tr)"
  shows "(\<exists>v4. length v4 = 4 \<and> ip = IP_String v4)
         \<and> (fetchDNSRecord_http w tr cfg = (Inr rcd, tr') \<longrightarrow>
              (Content rcd = ip \<longrightarrow> main_http w = (NoOpDone, tr'))
              \<and> (Content rcd \<noteq> ip \<longrightarrow>
                    main_http w
                      = (case updateDNSRecord_http w tr' cfg (ID rcd) ip of
                           (Some e, tr'') \<Rightarrow> (UpdateFailed e, tr'')
                         | (None, tr'') \<Rightarrow> (Done, tr'')))
              \<and> (fst (main_http w) = NoOpDone \<longleftrightarrow> Content rcd = ip))
         \<and> (newCloudflareClient cfg = Inr client
              \<and> fetchDNSRecord_sdk w [] client cfg = (Inr sdkrcd, calls)
              \<and> AsUnion sdkrcd = ARecord content \<longrightarrow>
              (TrimSpace content = ip \<longrightarrow> main_sdk w = (NoOpDone, tr, calls))
              \<and> (TrimSpace content \<noteq> ip \<longrightarrow>
                    main_sdk w
                      = (case updateDNSRecord_sdk w calls client cfg (SdkID sdkrcd) ip of
                           (Some e, calls') \<Rightarrow> (UpdateFailed e, tr, calls')
                         | (None, calls') \<Rightarrow> (Done, tr, calls')))
              \<and> (fst (main_sdk w) = NoOpDone \<longleftrightarrow> TrimSpace content = ip))"
proof -
  have a: "\<exists>v4. length v4 = 4 \<and> ip = IP_String v4"
    using assms(2) by (rule discoverIP_Inr)
  have b: "main_http w =
      (if Content rcd = ip then (NoOpDone, tr')
       else (case updateDNSRecord_http w tr' cfg (ID rcd) ip of
               (Some e, tr'') \<Rightarrow> (UpdateFailed e, tr'')
             | (None, tr'') \<Rightarrow> (Done, tr'')))"
    if "fetchDNSRecord_http w tr cfg = (Inr rcd, tr')"
    using assms that by (rule main_http_fetched)
  have b': "fst (main_http w) = NoOpDone \<longleftrightarrow> Content rcd = ip"
    if "fetchDNSRecord_http w tr cfg = (Inr rcd, tr')"
    using b [OF that] by (auto split: prod.splits option.splits)
  have c: "main_sdk w =
      (if TrimSpace content = ip then (NoOpDone, tr, calls)
       else (case updateDNSRecord_sdk w calls client cfg (SdkID sdkrcd) ip of
               (Some e, calls') \<Rightarrow> (UpdateFailed e, tr, calls')
             | (None, calls') \<Rightarrow> (Done, tr, calls')))"
    if "newCloudflareClient cfg = Inr client"
      "fetchDNSRecord_sdk w [] client cfg = (Inr sdkrcd, calls)"
      "AsUnion sdkrcd = ARecord content"
  proof -
    from that(3) have "extractARecordIP sdkrcd = Inr (TrimSpace content)"
      by (simp add: extractARecordIP_def)
    with assms that(1,2) show ?thesis by (rule main_sdk_fetched)
  qed
  have c': "fst (main_sdk w) = NoOpDone \<longleftrightarrow> TrimSpace content = ip"
    if "newCloudflareClient cfg = Inr client"
      "fetchDNSRecord_sdk w [] client cfg = (Inr sdkrcd, calls)"
      "AsUnion sdkrcd = ARecord content"
    using c [OF that] by (auto split: prod.splits option.splits)
  from a b b' c c' show ?thesis by simp
qed

theorem driver_compare_witness:
  "loadConfig (exampleWorld 200 (listed [providerRecord ''record-id'' ''203.0.113.10'']))
     = Inr exampleConfig
   \<and> discoverIP (exampleWorld 200 (listed [providerRecord ''record-id'' ''203.0.113.10'']))
        [] (IPServices exampleConfig)
       = (Inr ''203.0.113.10'',
          [getRequest ''http://invalid.test'', getRequest ''http://valid.test''])
   \<and> fetchDNSRecord_http (exampleWorld 200 (listed [providerRecord ''record-id'' ''203.0.113.10'']))
        [getRequest ''http://invalid.test'', getRequest ''http://valid.test''] exampleConfig
       = (Inr (providerRecord ''record-id'' ''203.0.113.10''),
          [getRequest ''http://invalid.test'', getRequest ''http://valid.test'',
           fetchRequest exampleConfig])
   \<and> Content (providerRecord ''record-id'' ''203.0.113.10'') = ''203.0.113.10''
   \<and> main_http (exampleWorld 200 (listed [providerRecord ''record-id'' ''203.0.113.10'']))
       = (NoOpDone,
          [getRequest ''http://invalid.test'', getRequest ''http://valid.test'',
           fetchRequest exampleConfig])
   \<and> main_sdk (exampleWorld 200 (listed [providerRecord ''record-id'' ''203.0.113.10'']))
       = (NoOpDone,
          [getRequest ''http://invalid.test'', getRequest ''http://valid.test''],
          [RecordsListCall [WithHTTPClient, WithAPIToken ''token-value'']
             (listParams exampleConfig)])"
proof -
  let ?r = "providerRecord ''record-id'' ''203.0.113.10''"
  let ?w = "exampleWorld 200 (listed [?r])"
  let ?tr = "[getRequest ''http://invalid.test'', getRequest ''http://valid.test'']"
  let ?client = "[WithHTTPClient, WithAPIToken ''token-value'']"
  have c: "Content ?r = ''203.0.113.10''" by (simp add: providerRecord_def)
  have 1: "loadConfig ?w = Inr exampleConfig" by (rule exampleWorld_loadConfig)
  have 2: "discoverIP ?w [] (IPServices exampleConfig) = (Inr ''203.0.113.10'', ?tr)"
    by (rule exampleWorld_discoverIP)
  have 3: "fetchDNSRecord_http ?w ?tr exampleConfig = (Inr ?r, ?tr @ [fetchRequest exampleConfig])"
    by (rule exampleWorld_fetchDNSRecord)
  have 4: "fetchDNSRecord_sdk ?w [] ?client exampleConfig
      = (Inr (sdkRecord ?r), [RecordsListCall ?client (listParams exampleConfig)])"
    by (rule exampleWorld_sdk)
  have 5: "AsUnion (sdkRecord ?r) = ARecord ''203.0.113.10''"
    by (simp add: sdkRecord_def providerRecord_def)
  have 6: "TrimSpace ''203.0.113.10'' = ''203.0.113.10''" by (rule TrimSpace_examples)
  from driver_compare [OF 1 2, of ?r "?tr @ [fetchRequest exampleConfig]" ?client
      "sdkRecord ?r" "[RecordsListCall ?client (listParams exampleConfig)]" "''203.0.113.10''"]
    1 2 3 4 5 6 c exampleWorld_sdk(1)
  show ?thesis by simp
qed

lemma fetchDNSRecord_sdk_calls:
  "fetchDNSRecord_sdk w calls client cfg = (r, calls') \<Longrightarrow>
     calls' = calls @ [RecordsListCall client (listParams cfg)]"
  by (auto simp: fetchDNSRecord_sdk_def split: sum.splits list.splits)

lemma no_patch_before_update:
  assumes "discoverIP w [] svcs = (r, tr)"
    and "fetchDNSRecord_http w tr cfg = (Inr rcd, tr')"
  shows "filter (\<lambda>q. Method q = ''PATCH'') tr' = []"
proof -
  have "tr' = tr @ [fetchRequest cfg]" using assms(2) by (rule fetchDNSRecord_http_Inr)
  with no_patch_after_fetch [OF assms(1), of cfg] show ?thesis
    by (simp add: filter_empty_conv)
qed

text \<open>A record identifier with a control character: \<^verbatim>\<open>http.NewRequest\<close> refuses the URL
  of its update.\<close>

definition badRecordID :: string where
  "badRecordID = ''record'' @ [CHR 0x01]"

lemma exampleWorld_refused:
  "updateDNSRecord_http (exampleWorld status payload) tr exampleConfig badRecordID newIP
     = (Some NewRequestFailed, tr)"
  by (simp add: updateDNSRecord_http_def exampleWorld_def urlAccepted_def updateEndpoint_def
        exampleConfig_def badRecordID_def ord_def)

text \<open>
  \<^bold>\<open>C3\<close>, as stated, fails in the variant over plain HTTP: \<open>updateDNSRecord\<close> returns the
  error of \<^verbatim>\<open>http.NewRequest\<close> before anything is sent. The provider's record has an
  identifier with a control character and a content that differs from the discovered
  address; the URL of the update cannot be built, and the run ends with no update request.
\<close>

theorem update_request_counterexample:
  "fetchDNSRecord_http
       (exampleWorld 200 (listed [providerRecord badRecordID ''198.51.100.2'']))
       [getRequest ''http://invalid.test'', getRequest ''http://valid.test''] exampleConfig
     = (Inr (providerRecord badRecordID ''198.51.100.2''),
        [getRequest ''http://invalid.test'', getRequest ''http://valid.test'',
         fetchRequest exampleConfig])
   \<and> discoverIP (exampleWorld 200 (listed [providerRecord badRecordID ''198.51.100.2'']))
        [] (IPServices exampleConfig)
       = (Inr ''203.0.113.10'',
          [getRequest ''http://invalid.test'', getRequest ''http://valid.test''])
   \<and> Content (providerRecord badRecordID ''198.51.100.2'') \<noteq> ''203.0.113.10''
   \<and> main_http (exampleWorld 200 (listed [providerRecord badRecordID ''198.51.100.2'']))
       = (UpdateFailed NewRequestFailed,
          [getRequest ''http://invalid.test'', getRequest ''http://valid.test'',
           fetchRequest exampleConfig])
   \<and> filter (\<lambda>q. Method q = ''PATCH'')
        (snd (main_http (exampleWorld 200 (listed [providerRecord badRecordID ''198.51.100.2'']))))
       = []"
proof -
  let ?r = "providerRecord badRecordID ''198.51.100.2''"
  let ?w = "exampleWorld 200 (listed [?r])"
  let ?tr = "[getRequest ''http://invalid.test'', getRequest ''http://valid.test'']"
  have c: "Content ?r = ''198.51.100.2''" "ID ?r = badRecordID"
    by (simp_all add: providerRecord_def)
  have 1: "loadConfig ?w = Inr exampleConfig" by (rule exampleWorld_loadConfig)
  have 2: "discoverIP ?w [] (IPServices exampleConfig) = (Inr ''203.0.113.10'', ?tr)"
    by (rule exampleWorld_discoverIP)
  have 3: "fetchDNSRecord_http ?w ?tr exampleConfig = (Inr ?r, ?tr @ [fetchRequest exampleConfig])"
    by (rule exampleWorld_fetchDNSRecord)
  have m: "main_http ?w = (UpdateFailed NewRequestFailed, ?tr @ [fetchRequest exampleConfig])"
    using main_http_fetched [OF 1 2 3] by (simp add: c exampleWorld_refused)
  have g: "Method (getRequest svc) = ''GET''" for svc by (simp add: getRequest_def)
  from c 2 3 m show ?thesis by (simp add: g fetchRequest_fields)
qed

text \<open>
  \<^bold>\<open>C3\<close>, amended. When the content of the fetched record differs from the discovered
  address, the variant over plain HTTP sends one update request, the only \<open>PATCH\<close> of the
  run, provided \<^verbatim>\<open>http.NewRequest\<close> accepts the URL built from the zone and record
  identifiers (otherwise nothing is sent and the run ends with that error); the body of the
  request is the record type, the record name, the TTL and the proxied flag of the
  configuration and the discovered address as content. The SDK variant makes one update
  call, after the list call, with the same five values.
\<close>

theorem update_request:
  assumes "loadConfig w = Inr cfg"
    and "discoverIP w [] (IPServices cfg) = (Inr ip, tr)"
  shows "(fetchDNSRecord_http w tr cfg = (Inr rcd, tr') \<and> Content rcd \<noteq> ip
            \<and> NewRequest w ''PATCH'' (updateEndpoint cfg (ID rcd)) \<longrightarrow>
            snd (main_http w) = tr' @ [updateRequest cfg (ID rcd) ip]
            \<and> filter (\<lambda>q. Method q = ''PATCH'') (snd (main_http w))
                = [updateRequest cfg (ID rcd) ip]
            \<and> Body (updateRequest cfg (ID rcd) ip)
                = Some [(''type'', JString (RecordType cfg)),
                        (''name'', JString (RecordName cfg)),
                        (''content'', JString ip),
                        (''ttl'', JInt (TTL cfg)),
                        (''proxied'', JBool (Proxied cfg))])
         \<and> (fetchDNSRecord_http w tr cfg = (Inr rcd, tr') \<and> Content rcd \<noteq> ip
            \<and> \<not> NewRequest w ''PATCH'' (updateEndpoint cfg (ID rcd)) \<longrightarrow>
            main_http w = (UpdateFailed NewRequestFailed, tr'))
         \<and> (newCloudflareClient cfg = Inr client
            \<and> fetchDNSRecord_sdk w [] client cfg = (Inr sdkrcd, calls)
            \<and> extractARecordIP sdkrcd = Inr currentIP \<and> currentIP \<noteq> ip \<longrightarrow>
            snd (snd (main_sdk w))
              = [RecordsListCall client (listParams cfg),
                 RecordsUpdateCall client (SdkID sdkrcd)
                   \<lparr>UpdateZoneID = ZoneID cfg,
                    UpdateRecord = \<lparr>ParamName = RecordName cfg, ParamContent = ip,
                                    ParamType = RecordType cfg, ParamTTL = Float64 (TTL cfg),
                                    ParamProxied = Proxied cfg\<rparr>\<rparr>])"
proof -
  have http: "snd (main_http w) = tr' @ [updateRequest cfg (ID rcd) ip]
      \<and> filter (\<lambda>q. Method q = ''PATCH'') (snd (main_http w)) = [updateRequest cfg (ID rcd) ip]"
    if f: "fetchDNSRecord_http w tr cfg = (Inr rcd, tr')" and d: "Content rcd \<noteq> ip"
      and n: "NewRequest w ''PATCH'' (updateEndpoint cfg (ID rcd))"
  proof -
    obtain r3 tr3 where u: "updateDNSRecord_http w tr' cfg (ID rcd) ip = (r3, tr3)"
      by fastforce
    from updateDNSRecord_http_trace [OF u] n
    have t3: "tr3 = tr' @ [updateRequest cfg (ID rcd) ip]" by simp
    from main_http_fetched [OF assms f] d u have "snd (main_http w) = tr3"
      by (cases r3) simp_all
    with t3 no_patch_before_update [OF assms(2) f] show ?thesis
      by (simp add: updateRequest_fields)
  qed
  have body: "Body (updateRequest cfg (ID rcd) ip)
      = Some [(''type'', JString (RecordType cfg)), (''name'', JString (RecordName cfg)),
              (''content'', JString ip), (''ttl'', JInt (TTL cfg)),
              (''proxied'', JBool (Proxied cfg))]"
    by (simp add: updateRequest_fields updateBody_def)
  have refused: "main_http w = (UpdateFailed NewRequestFailed, tr')"
    if f: "fetchDNSRecord_http w tr cfg = (Inr rcd, tr')" and d: "Content rcd \<noteq> ip"
      and n: "\<not> NewRequest w ''PATCH'' (updateEndpoint cfg (ID rcd))"
    using main_http_fetched [OF assms f] d n by (simp add: updateDNSRecord_http_def)
  have sdk: "snd (snd (main_sdk w))
      = [RecordsListCall client (listParams cfg),
         RecordsUpdateCall client (SdkID sdkrcd)
           \<lparr>UpdateZoneID = ZoneID cfg,
            UpdateRecord = \<lparr>ParamName = RecordName cfg, ParamContent = ip,
                            ParamType = RecordType cfg, ParamTTL = Float64 (TTL cfg),
                            ParamProxied = Proxied cfg\<rparr>\<rparr>]"
    if c: "newCloudflareClient cfg = Inr client"
      and f: "fetchDNSRecord_sdk w [] client cfg = (Inr sdkrcd, calls)"
      and e: "extractARecordIP sdkrcd = Inr currentIP" and d: "currentIP \<noteq> ip"
  proof -
    from fetchDNSRecord_sdk_calls [OF f]
    have k: "calls = [RecordsListCall client (listParams cfg)]" by simp
    from loadConfig_valid [OF assms(1)] have a: "RecordType cfg = ''A''"
      by (simp add: validConfig_def)
    from main_sdk_fetched [OF assms c f e] d k a show ?thesis
      by (cases "RecordsUpdate w client (SdkID sdkrcd) (updateParams cfg ip)")
         (simp_all add: updateDNSRecord_sdk_def updateParams_def)
  qed
  from http body refused sdk show ?thesis by blast
qed

theorem update_request_witness:
  "loadConfig (exampleWorld 200 (listed [providerRecord ''record-id'' ''198.51.100.2'']))
     = Inr exampleConfig
   \<and> discoverIP (exampleWorld 200 (listed [providerRecord ''record-id'' ''198.51.100.2'']))
        [] (IPServices exampleConfig)
       = (Inr ''203.0.113.10'',
          [getRequest ''http://invalid.test'', getRequest ''http://valid.test''])
   \<and> fetchDNSRecord_http
        (exampleWorld 200 (listed [providerRecord ''record-id'' ''198.51.100.2'']))
        [getRequest ''http://invalid.test'', getRequest ''http://valid.test''] exampleConfig
       = (Inr (providerRecord ''record-id'' ''198.51.100.2''),
          [getRequest ''http://invalid.test'', getRequest ''http://valid.test'',
           fetchRequest exampleConfig])
   \<and> Content (providerRecord ''record-id'' ''198.51.100.2'') \<noteq> ''203.0.113.10''
   \<and> NewRequest (exampleWorld 200 (listed [providerRecord ''record-id'' ''198.51.100.2'']))
        ''PATCH'' (updateEndpoint exampleConfig ''record-id'')
   \<and> snd (main_http (exampleWorld 200 (listed [providerRecord ''record-id'' ''198.51.100.2''])))
       = [getRequest ''http://invalid.test'', getRequest ''http://valid.test'',
          fetchRequest exampleConfig,
          updateRequest exampleConfig ''record-id'' ''203.0.113.10'']
   \<and> Body (updateRequest exampleConfig ''record-id'' ''203.0.113.10'')
       = Some [(''type'', JString ''A''), (''name'', JString ''example.com''),
               (''content'', JString ''203.0.113.10''), (''ttl'', JInt 600),
               (''proxied'', JBool True)]
   \<and> snd (snd (main_sdk (exampleWorld 200 (listed [providerRecord ''record-id'' ''198.51.100.2'']))))
       = [RecordsListCall [WithHTTPClient, WithAPIToken ''token-value'']
            (listParams exampleConfig),
          RecordsUpdateCall [WithHTTPClient, WithAPIToken ''token-value''] ''record-id''
            \<lparr>UpdateZoneID = ''zone-id'',
             UpdateRecord = \<lparr>ParamName = ''example.com'', ParamContent = ''203.0.113.10'',
                             ParamType = ''A'', ParamTTL = Float64 600,
                             ParamProxied = True\<rparr>\<rparr>]"
proof -
  let ?r = "providerRecord ''record-id'' ''198.51.100.2''"
  let ?w = "exampleWorld 200 (listed [?r])"
  let ?tr = "[getRequest ''http://invalid.test'', getRequest ''http://valid.test'']"
  let ?client = "[WithHTTPClient, WithAPIToken ''token-value'']"
  have c: "Content ?r = ''198.51.100.2''" "ID ?r = ''record-id''"
    by (simp_all add: providerRecord_def)
  have 1: "loadConfig ?w = Inr exampleConfig" by (rule exampleWorld_loadConfig)
  have 2: "discoverIP ?w [] (IPServices exampleConfig) = (Inr ''203.0.113.10'', ?tr)"
    by (rule exampleWorld_discoverIP)
  have 3: "fetchDNSRecord_http ?w ?tr exampleConfig = (Inr ?r, ?tr @ [fetchRequest exampleConfig])"
    by (rule exampleWorld_fetchDNSRecord)
  have 4: "NewRequest ?w ''PATCH'' (updateEndpoint exampleConfig ''record-id'')"
    by (rule exampleWorld_update)
  have 5: "fetchDNSRecord_sdk ?w [] ?client exampleConfig
      = (Inr (sdkRecord ?r), [RecordsListCall ?client (listParams exampleConfig)])"
    by (rule exampleWorld_sdk)
  have 6: "extractARecordIP (sdkRecord ?r) = Inr ''198.51.100.2''"
    by (simp add: extractARecordIP_def sdkRecord_def providerRecord_def TrimSpace_eval)
  have i: "SdkID (sdkRecord ?r) = ''record-id''" by (simp add: sdkRecord_def providerRecord_def)
  have x: "RecordType exampleConfig = ''A''" "RecordName exampleConfig = ''example.com''"
    "TTL exampleConfig = 600" "Proxied exampleConfig" "ZoneID exampleConfig = ''zone-id''"
    by (simp_all add: exampleConfig_def)
  from update_request [OF 1 2, of ?r "?tr @ [fetchRequest exampleConfig]" ?client
      "sdkRecord ?r" "[RecordsListCall ?client (listParams exampleConfig)]" "''198.51.100.2''"]
    1 2 3 4 5 6 c i x exampleWorld_sdk(1)
  show ?thesis by simp
qed

end
